theory Spec2Isabelle
  imports Complex_Main "HOL-Library.Char_ord" "HOL-Library.List_Lexorder"
begin

section \<open>JavaScript values\<close>

text \<open>
  The three variants of the engine (\<^verbatim>\<open>src/chat-main/index.js\<close>, \<^verbatim>\<open>src/unnamed/part_000\<close>
  and \<^verbatim>\<open>src/unnamed/part_001\<close>) work on untyped JavaScript objects.  A number is
  \<open>NaN\<close>, an infinity or a finite value.  A finite value is held as a rational; the
  result of an addition is rounded to binary64 by a parameter of the runtime
  (\<open>roundNum\<close> below), the conversion of a text to a number is not rounded, and the sign
  of zero is not modelled.  The field values of a sales order are the JSON scalars and
  \<open>undefined\<close>; an object is a total function from property names to values, an absent
  property reading as \<open>undefined\<close>.
\<close>

datatype jsnum = NaN | PosInf | NegInf | Fin rat

datatype jsval = Undefined | Null | Bool bool | Num jsnum | Str string

type_synonym jsobj = "string \<Rightarrow> jsval"

definition emptyObj :: jsobj where
  "emptyObj = (\<lambda>_. Undefined)"

text \<open>ToBoolean: what \<^verbatim>\<open>if (v)\<close>, \<^verbatim>\<open>!v\<close> and \<^verbatim>\<open>v || d\<close> test.\<close>

fun truthy :: "jsval \<Rightarrow> bool" where
  "truthy Undefined = False"
| "truthy Null = False"
| "truthy (Bool b) = b"
| "truthy (Num NaN) = False"
| "truthy (Num (Fin q)) = (q \<noteq> 0)"
| "truthy (Num PosInf) = True"
| "truthy (Num NegInf) = True"
| "truthy (Str s) = (s \<noteq> [])"

definition js_or :: "jsval \<Rightarrow> jsval \<Rightarrow> jsval" where
  "js_or a b = (if truthy a then a else b)"

text \<open>Strict equality \<^verbatim>\<open>===\<close>: same type and same value, \<open>NaN\<close> equal to nothing.\<close>

definition strict_eq :: "jsval \<Rightarrow> jsval \<Rightarrow> bool" where
  "strict_eq a b = (a = b \<and> a \<noteq> Num NaN)"

text \<open>
  The exceptions.  A ReferenceError is what the evaluation of an identifier that no
  declaration binds raises.
\<close>

datatype error = TypeError | RangeError | ReferenceError | DbError

subsection \<open>Strings\<close>

text \<open>
  Strings are lists of characters.  \<^verbatim>\<open>toLowerCase\<close> maps the letters A to Z and leaves
  every other character as it is, and white space is the ASCII white space: the case
  mapping and the blanks of Unicode beyond ASCII are not modelled.
\<close>

definition lowerChar :: "char \<Rightarrow> char" where
  "lowerChar c =
     (case map_of (zip ''ABCDEFGHIJKLMNOPQRSTUVWXYZ'' ''abcdefghijklmnopqrstuvwxyz'') c of
        Some d \<Rightarrow> d | None \<Rightarrow> c)"

definition toLowerCase :: "string \<Rightarrow> string" where
  "toLowerCase s = map lowerChar s"

definition isWs :: "char \<Rightarrow> bool" where
  "isWs c = (c \<in> set [CHR '' '', CHR 0x09, CHR 0x0A, CHR 0x0B, CHR 0x0C, CHR 0x0D])"

definition trim :: "string \<Rightarrow> string" where
  "trim s = rev (dropWhile isWs (rev (dropWhile isWs s)))"

definition startsWith :: "string \<Rightarrow> string \<Rightarrow> bool" where
  "startsWith s p = (take (length p) s = p)"

fun js_includes :: "string \<Rightarrow> string \<Rightarrow> bool" where
  "js_includes [] kw = (kw = [])"
| "js_includes (c # cs) kw = (startsWith (c # cs) kw \<or> js_includes cs kw)"

definition join :: "string \<Rightarrow> string list \<Rightarrow> string" where
  "join sep xs = (case xs of [] \<Rightarrow> [] | x # ys \<Rightarrow> foldl (\<lambda>acc y. acc @ sep @ y) x ys)"

subsection \<open>Numbers from strings\<close>

definition digitVal :: "char \<Rightarrow> nat option" where
  "digitVal c = map_of (zip ''0123456789'' [0, 1, 2, 3, 4, 5, 6, 7, 8, 9]) c"

definition hexVal :: "char \<Rightarrow> nat option" where
  "hexVal c =
     map_of (zip ''0123456789abcdefABCDEF''
       [0, 1, 2, 3, 4, 5, 6, 7, 8, 9, 10, 11, 12, 13, 14, 15, 10, 11, 12, 13, 14, 15]) c"

definition isDigit :: "char \<Rightarrow> bool" where
  "isDigit c = (digitVal c \<noteq> None)"

text \<open>The value of a string of digits in a base; a character that is no digit counts 0.\<close>

definition digitsVal :: "nat \<Rightarrow> (char \<Rightarrow> nat option) \<Rightarrow> string \<Rightarrow> nat" where
  "digitsVal base dv ds =
     foldl (\<lambda>a c. base * a + (case dv c of Some d \<Rightarrow> d | None \<Rightarrow> 0)) 0 ds"

definition pow10 :: "int \<Rightarrow> rat" where
  "pow10 e = (if 0 \<le> e then 10 ^ nat e else 1 / 10 ^ nat (- e))"

definition neg :: "jsnum \<Rightarrow> jsnum" where
  "neg n = (case n of NaN \<Rightarrow> NaN | PosInf \<Rightarrow> NegInf | NegInf \<Rightarrow> PosInf | Fin q \<Rightarrow> Fin (- q))"

text \<open>
  The exponent part of a decimal literal at the head of a string: its value and the
  rest of the string.  An \<^verbatim>\<open>e\<close> that no digit follows is not part of the literal.
\<close>

definition parseExponent :: "string \<Rightarrow> int \<times> string" where
  "parseExponent s =
     (case s of
        [] \<Rightarrow> (0, s)
      | c # t \<Rightarrow>
          if c = CHR ''e'' \<or> c = CHR ''E'' then
            (let sg = (case t of [] \<Rightarrow> 1 | d # _ \<Rightarrow> if d = CHR ''-'' then - 1 else 1);
                 u = (case t of [] \<Rightarrow> t
                      | d # v \<Rightarrow> if d = CHR ''+'' \<or> d = CHR ''-'' then v else t)
             in if takeWhile isDigit u = [] then (0, s)
                else (sg * int (digitsVal 10 digitVal (takeWhile isDigit u)), dropWhile isDigit u))
          else (0, s))"

text \<open>
  The longest prefix of a string that is a StrUnsignedDecimalLiteral of ECMAScript
  (\<^verbatim>\<open>Infinity\<close>, or digits with an optional fraction and exponent), as its value and the
  rest of the string; \<open>None\<close> when there is none.
\<close>

definition parseUnsigned :: "string \<Rightarrow> (jsnum \<times> string) option" where
  "parseUnsigned s =
     (if startsWith s ''Infinity'' then Some (PosInf, drop 8 s)
      else
        let ip = takeWhile isDigit s;
            r1 = dropWhile isDigit s;
            dot = (case r1 of [] \<Rightarrow> False | c # _ \<Rightarrow> c = CHR ''.'');
            fp = (if dot then takeWhile isDigit (tl r1) else []);
            r2 = (if dot then dropWhile isDigit (tl r1) else r1)
        in if ip = [] \<and> fp = [] then None
           else Some (Fin (of_nat (digitsVal 10 digitVal (ip @ fp))
                        * pow10 (fst (parseExponent r2) - int (length fp))),
                      snd (parseExponent r2)))"

definition parseSigned :: "string \<Rightarrow> (jsnum \<times> string) option" where
  "parseSigned s =
     (case s of
        [] \<Rightarrow> None
      | c # t \<Rightarrow>
          if c = CHR ''+'' then parseUnsigned t
          else if c = CHR ''-'' then map_option (\<lambda>(v, r). (neg v, r)) (parseUnsigned t)
          else parseUnsigned s)"

text \<open>\<^verbatim>\<open>parseFloat\<close> of a string: leading white space is skipped, what follows the literal is ignored.\<close>

definition parseFloat :: "string \<Rightarrow> jsnum" where
  "parseFloat s = (case parseSigned (dropWhile isWs s) of Some (v, _) \<Rightarrow> v | None \<Rightarrow> NaN)"

text \<open>
  StringToNumber, the conversion \<^verbatim>\<open>Number(s)\<close> of a string: the trimmed string is empty
  (0), a hexadecimal, octal or binary integer literal, or a decimal literal and nothing
  else; any other string is \<open>NaN\<close>.
\<close>

definition radixLiteral :: "string \<Rightarrow> jsnum option" where
  "radixLiteral t =
     (let body = drop 2 t;
          lit = (\<lambda>base dv. if body \<noteq> [] \<and> list_all (\<lambda>c. case dv c of Some d \<Rightarrow> d < base | None \<Rightarrow> False) body
                   then Fin (of_nat (digitsVal base dv body)) else NaN)
      in if take 2 t = ''0x'' \<or> take 2 t = ''0X'' then Some (lit 16 hexVal)
         else if take 2 t = ''0o'' \<or> take 2 t = ''0O'' then Some (lit 8 digitVal)
         else if take 2 t = ''0b'' \<or> take 2 t = ''0B'' then Some (lit 2 digitVal)
         else None)"

definition stringToNumber :: "string \<Rightarrow> jsnum" where
  "stringToNumber s =
     (let t = trim s
      in if t = [] then Fin 0
         else case radixLiteral t of
                Some v \<Rightarrow> v
              | None \<Rightarrow> (case parseSigned t of Some (v, []) \<Rightarrow> v | _ \<Rightarrow> NaN))"

text \<open>ToNumber, the conversion \<^verbatim>\<open>Number(v)\<close>.\<close>

fun toNumber :: "jsval \<Rightarrow> jsnum" where
  "toNumber Undefined = NaN"
| "toNumber Null = Fin 0"
| "toNumber (Bool b) = (if b then Fin 1 else Fin 0)"
| "toNumber (Num n) = n"
| "toNumber (Str s) = stringToNumber s"

text \<open>
  ToString.  The digits of a finite number other than 0 are those of Number::toString,
  which is not modelled: it is the parameter \<open>nts\<close> of every function that prints a
  number.
\<close>

definition numToString :: "(rat \<Rightarrow> string) \<Rightarrow> jsnum \<Rightarrow> string" where
  "numToString nts n =
     (case n of NaN \<Rightarrow> ''NaN'' | PosInf \<Rightarrow> ''Infinity'' | NegInf \<Rightarrow> ''-Infinity''
      | Fin q \<Rightarrow> if q = 0 then ''0'' else nts q)"

fun toString :: "(rat \<Rightarrow> string) \<Rightarrow> jsval \<Rightarrow> string" where
  "toString nts Undefined = ''undefined''"
| "toString nts Null = ''null''"
| "toString nts (Bool b) = (if b then ''true'' else ''false'')"
| "toString nts (Num n) = numToString nts n"
| "toString nts (Str s) = s"

text \<open>The decimal digits of an index.\<close>

function showNat :: "nat \<Rightarrow> string" where
  "showNat n =
     (if n < 10 then [''0123456789'' ! n] else showNat (n div 10) @ [''0123456789'' ! (n mod 10)])"
  by pat_completeness auto
termination
  by (relation "measure id") auto

declare showNat.simps [simp del]

subsection \<open>JSON values\<close>

text \<open>
  What \<^verbatim>\<open>JSON.parse\<close> returns, and so what a field of the descriptor may hold.  An object
  is the list of its properties in the order of their creation.
\<close>

datatype json =
  JNull | JBool bool | JNum jsnum | JStr string | JArr "json list" | JObj "(string \<times> json) list"

text \<open>ToBoolean of a property that may be absent (\<open>None\<close>, which reads as \<^verbatim>\<open>undefined\<close>).\<close>

fun truthyJ :: "json option \<Rightarrow> bool" where
  "truthyJ None = False"
| "truthyJ (Some JNull) = False"
| "truthyJ (Some (JBool b)) = b"
| "truthyJ (Some (JNum n)) = truthy (Num n)"
| "truthyJ (Some (JStr s)) = (s \<noteq> [])"
| "truthyJ (Some (JArr _)) = True"
| "truthyJ (Some (JObj _)) = True"

text \<open>
  ToString: an array prints its elements, \<^verbatim>\<open>null\<close> as the empty string, with commas
  between them, and an object prints as \<^verbatim>\<open>[object Object]\<close>.
\<close>

fun toStringJ :: "(rat \<Rightarrow> string) \<Rightarrow> json \<Rightarrow> string" where
  "toStringJ nts JNull = ''null''"
| "toStringJ nts (JBool b) = (if b then ''true'' else ''false'')"
| "toStringJ nts (JNum n) = numToString nts n"
| "toStringJ nts (JStr s) = s"
| "toStringJ nts (JArr xs) =
     join '','' (map (\<lambda>x. if x = JNull then [] else toStringJ nts x) xs)"
| "toStringJ nts (JObj props) = ''[object Object]''"

text \<open>
  The scalar that a JSON value is, if it is one, and ToPrimitive, which turns an array
  or an object into its string.
\<close>

definition scalarOf :: "json \<Rightarrow> jsval option" where
  "scalarOf j =
     (case j of JNull \<Rightarrow> Some Null | JBool b \<Rightarrow> Some (Bool b) | JNum n \<Rightarrow> Some (Num n)
      | JStr s \<Rightarrow> Some (Str s) | _ \<Rightarrow> None)"

definition toPrimitive :: "(rat \<Rightarrow> string) \<Rightarrow> json \<Rightarrow> jsval" where
  "toPrimitive nts j = (case scalarOf j of Some v \<Rightarrow> v | None \<Rightarrow> Str (toStringJ nts j))"

text \<open>
  \<^verbatim>\<open>a === j\<close> for a scalar \<open>a\<close>: an array or an object is equal to no scalar.
\<close>

definition strict_eqJ :: "jsval \<Rightarrow> json \<Rightarrow> bool" where
  "strict_eqJ a j = (case scalarOf j of Some v \<Rightarrow> strict_eq a v | None \<Rightarrow> False)"

text \<open>
  \<^verbatim>\<open>j.name\<close> for the names \<^verbatim>\<open>operator\<close>, \<^verbatim>\<open>value\<close> and \<^verbatim>\<open>length\<close> of an object: an own
  property, or \<^verbatim>\<open>undefined\<close> (\<^verbatim>\<open>Object.prototype\<close> has no member of these names).
\<close>

definition propJ :: "json \<Rightarrow> string \<Rightarrow> json option" where
  "propJ j name = (case j of JObj props \<Rightarrow> map_of props name | _ \<Rightarrow> None)"

text \<open>
  \<^verbatim>\<open>j.toLowerCase()\<close> and \<^verbatim>\<open>j.trim()\<close> on a truthy JSON value: a TypeError unless \<open>j\<close>
  is a string.
\<close>

definition asStringJ :: "json \<Rightarrow> error + string" where
  "asStringJ j = (case j of JStr s \<Rightarrow> Inr s | _ \<Rightarrow> Inl TypeError)"

text \<open>The assignment \<^verbatim>\<open>obj[k] = v\<close> on a list of properties.\<close>

fun mapPut :: "(string \<times> 'v) list \<Rightarrow> string \<Rightarrow> 'v \<Rightarrow> (string \<times> 'v) list" where
  "mapPut [] k v = [(k, v)]"
| "mapPut ((k', v') # m) k v = (if k' = k then (k, v) # m else (k', v') # mapPut m k v)"

section \<open>Record normalizer\<close>

text \<open>
  \<^verbatim>\<open>summarizeERPData\<close> of \<^verbatim>\<open>index.js\<close> and \<^verbatim>\<open>part_000\<close> (the two are the same): the
  function mapped over the rows.  The object literal spreads \<^verbatim>\<open>...so\<close> first and then sets
  seven properties.  \<^verbatim>\<open>replace\<close> with a string pattern removes its first occurrence only.
\<close>

definition summarizeOne :: "(rat \<Rightarrow> string) \<Rightarrow> jsobj \<Rightarrow> jsobj" where
  "summarizeOne nts so = so
     (''division'' := js_or (so ''Name_Dept'') (Str ''Unknown''),
      ''salesRep'' := js_or (so ''Name_Empl'') (Str ''Unknown''),
      ''amount'' := Num (toNumber (js_or (so ''TotalAmount_TransH'') (Num (Fin 0)))),
      ''gpRate'' := Num (parseFloat (remove1 CHR '','' (remove1 CHR ''%''
                      (toString nts (js_or (so ''gpRate'') (Str ''0'')))))),
      ''status'' := so ''Status_TransH'',
      ''date'' := so ''DateCreated_TransH'',
      ''so_number'' := js_or (so ''so_upk'') (Str ''Unknown''))"





text \<open>
  A fragment of Number::toString, for the numbers of the examples below.
\<close>

definition ntsTable :: "rat \<Rightarrow> string" where
  "ntsTable q =
     (if q = 111 / 2 then ''55.5'' else if q = 1500 then ''1500'' else if q = 1000 then ''1000''
      else if q = 500 then ''500'' else if q = 300 then ''300'' else if q = 200 then ''200''
      else if q = 100 then ''100'' else if q = 60 then ''60'' else if q = 50 then ''50''
      else if q = 40 then ''40'' else if q = 2 then ''2'' else if q = 1 then ''1'' else ''?'')"

definition nonNegative :: "jsnum \<Rightarrow> bool" where
  "nonNegative n = (case n of Fin q \<Rightarrow> 0 \<le> q | PosInf \<Rightarrow> True | _ \<Rightarrow> False)"

section \<open>Synchronizer\<close>

subsection \<open>Paging through the upstream source\<close>

text \<open>
  The JSON value of a reply of the ERP endpoint, as far as \<^verbatim>\<open>fetchAllSalesOrders\<close>
  looks at it.  \<open>BodyNull\<close>: the value \<^verbatim>\<open>null\<close>.  \<open>NoPage\<close>: a value whose
  \<^verbatim>\<open>data?.[0]\<close> is falsy, as that of \<^verbatim>\<open>{ data: [] }\<close> is.  \<open>Page xs\<close>: \<^verbatim>\<open>data[0]\<close> is
  the array \<open>xs\<close> of sales-order rows.  (A first element of \<^verbatim>\<open>data\<close> that is truthy and
  not an array of rows is not modelled.)
\<close>

datatype body = BodyNull | NoPage | Page "jsobj list"









subsection \<open>Merging a batch into the in-memory set\<close>

text \<open>
  \<^verbatim>\<open>mergeNewData\<close> of \<^verbatim>\<open>part_001\<close>, as a function of the in-memory array
  \<^verbatim>\<open>allERPData\<close> and the batch to the new array.  \<^verbatim>\<open>existingSO\<close> is a \<^verbatim>\<open>Set\<close>, whose
  membership is equality of values.  The array is extended before the database is
  touched, and the early return leaves it as it is; the inserts that follow do not
  touch it.
\<close>

definition mergeNewData_p1 :: "jsobj list \<Rightarrow> jsobj list \<Rightarrow> jsobj list" where
  "mergeNewData_p1 allERPData newData =
     (let existingSO = set (map (\<lambda>so. so ''so_pk'') allERPData);
          filteredNew = filter (\<lambda>so. so ''so_pk'' \<notin> existingSO) newData
      in if length filteredNew = 0 then allERPData else allERPData @ filteredNew)"

text \<open>
  \<^verbatim>\<open>mergeNewData\<close> of \<^verbatim>\<open>part_000\<close>: the old records whose \<^verbatim>\<open>so_upk\<close> is strictly equal
  to that of a record of the batch are dropped, and the batch is appended.
\<close>

definition mergeNewData_p0 :: "jsobj list \<Rightarrow> jsobj list \<Rightarrow> jsobj list" where
  "mergeNewData_p0 allERPData newData =
     filter (\<lambda>old. \<not> list_ex (\<lambda>n. strict_eq (n ''so_upk'') (old ''so_upk'')) newData) allERPData
       @ newData"

text \<open>
  \<^verbatim>\<open>mergeNewData\<close> of \<^verbatim>\<open>index.js\<close>.  Each record of the batch is first written to MySQL
  (\<open>dbQuery so\<close>: the statement for \<open>so\<close> succeeds); a failing statement throws and leaves
  the array as it was.  Then the array is assigned the batch, with \<^verbatim>\<open>gpRate\<close> and
  \<^verbatim>\<open>amount\<close> passed through \<^verbatim>\<open>Number\<close>.  The result is the exception, if any, and the array.
\<close>

definition mergeNewData ::
  "(jsobj \<Rightarrow> bool) \<Rightarrow> jsobj list \<Rightarrow> jsobj list \<Rightarrow> error option \<times> jsobj list" where
  "mergeNewData dbQuery allERPData newData =
     (if list_all dbQuery newData
      then (None, map (\<lambda>row. row(''gpRate'' := Num (toNumber (row ''gpRate'')),
                                  ''amount'' := Num (toNumber (row ''amount'')))) newData)
      else (Some DbError, allERPData))"

subsection \<open>The loop over the years\<close>



section \<open>Descriptor validation\<close>

text \<open>
  What the translator hands to \<^verbatim>\<open>parseQuestionWithGPT\<close>: the request fails or the reply
  has no text (\<open>Throws\<close>), the text is not JSON and \<^verbatim>\<open>JSON.parse\<close> throws (\<open>NotJson\<close>), or
  it is a JSON value.  The descriptor that the function returns, and that
  \<^verbatim>\<open>filterOrders\<close> and \<^verbatim>\<open>formatResponse\<close> receive, is an object: the list of its
  properties.
\<close>

datatype translation = Throws | NotJson | Parsed json

type_synonym descriptor = "(string \<times> json) list"

text \<open>\<^verbatim>\<open>parsed.f || d\<close>, \<^verbatim>\<open>parsed.f = parsed.f || d\<close>, and \<^verbatim>\<open>if (!parsed.f) parsed.f = d\<close>.\<close>

definition orElse :: "json option \<Rightarrow> json \<Rightarrow> json" where
  "orElse x d = (case x of None \<Rightarrow> d | Some v \<Rightarrow> if truthyJ (Some v) then v else d)"















section \<open>Query engine\<close>

subsection \<open>The runtime\<close>

text \<open>
  The parts of the JavaScript runtime that the engine calls and that are not modelled
  are parameters, held in one record: Number::toString and \<^verbatim>\<open>toFixed(2)\<close> on a finite
  number; the rounding of the exact sum of two finite numbers to the nearest binary64
  number, an infinity when the sum is out of range (\<open>roundNum\<close>); \<^verbatim>\<open>Intl.NumberFormat\<close>
  (\<^verbatim>\<open>formatPeso\<close>) and \<^verbatim>\<open>toLocaleString\<close>; the \<^verbatim>\<open>Date\<close> object (\<open>toISODay v\<close> is
  \<^verbatim>\<open>new Date(v).toISOString().split("T")[0]\<close>, \<open>None\<close> when the date is invalid and
  \<^verbatim>\<open>toISOString\<close> throws a RangeError; \<open>getFullYear\<close> and \<open>getMonth\<close> are \<open>None\<close> for
  \<open>NaN\<close>); \<^verbatim>\<open>localeCompare\<close>; and the text of the members that every object inherits from
  \<^verbatim>\<open>Object.prototype\<close> (\<open>None\<close> for a name that is not inherited).
\<close>

record jsenv =
  numberToString :: "rat \<Rightarrow> string"
  roundNum :: "rat \<Rightarrow> jsnum"
  toFixed2 :: "rat \<Rightarrow> string"
  formatPeso :: "jsnum \<Rightarrow> string"
  toLocaleStr :: "jsnum \<Rightarrow> string"
  toISODay :: "jsval \<Rightarrow> string option"
  getFullYear :: "jsval \<Rightarrow> int option"
  getMonth :: "jsval \<Rightarrow> nat option"
  localeCompare :: "string \<Rightarrow> string \<Rightarrow> int"
  protoText :: "string \<Rightarrow> string option"

subsection \<open>Operators\<close>

fun num_lt :: "jsnum \<Rightarrow> jsnum \<Rightarrow> bool option" where
  "num_lt NaN _ = None"
| "num_lt _ NaN = None"
| "num_lt (Fin x) (Fin y) = Some (x < y)"
| "num_lt NegInf NegInf = Some False"
| "num_lt NegInf _ = Some True"
| "num_lt _ NegInf = Some False"
| "num_lt PosInf _ = Some False"
| "num_lt _ PosInf = Some True"

text \<open>
  The abstract relational comparison \<open>a < b\<close>: two strings are compared as strings, any
  other pair as numbers, and the comparison is undefined (\<open>None\<close>) when one is \<open>NaN\<close>.
\<close>

definition js_lt :: "jsval \<Rightarrow> jsval \<Rightarrow> bool option" where
  "js_lt a b =
     (case (a, b) of (Str s, Str t) \<Rightarrow> Some (s < t) | _ \<Rightarrow> num_lt (toNumber a) (toNumber b))"

text \<open>
  The sum of two numbers: that of two finite numbers is their exact sum rounded to
  binary64, by the rounding \<open>rnd\<close> of the runtime.
\<close>

fun num_add :: "(rat \<Rightarrow> jsnum) \<Rightarrow> jsnum \<Rightarrow> jsnum \<Rightarrow> jsnum" where
  "num_add rnd NaN _ = NaN"
| "num_add rnd _ NaN = NaN"
| "num_add rnd (Fin x) (Fin y) = rnd (x + y)"
| "num_add rnd PosInf NegInf = NaN"
| "num_add rnd NegInf PosInf = NaN"
| "num_add rnd PosInf _ = PosInf"
| "num_add rnd _ PosInf = PosInf"
| "num_add rnd NegInf _ = NegInf"
| "num_add rnd _ NegInf = NegInf"

text \<open>The operator \<^verbatim>\<open>+\<close>: concatenation when an operand is a string, addition otherwise.\<close>

definition js_plus :: "jsenv \<Rightarrow> jsval \<Rightarrow> jsval \<Rightarrow> jsval" where
  "js_plus env a b =
     (case (a, b) of
        (Str s, _) \<Rightarrow> Str (s @ toString (numberToString env) b)
      | (_, Str t) \<Rightarrow> Str (toString (numberToString env) a @ t)
      | _ \<Rightarrow> Num (num_add (roundNum env) (toNumber a) (toNumber b)))"

text \<open>\<^verbatim>\<open>Math.max\<close> of a list of arguments: \<open>-Infinity\<close> for none, \<open>NaN\<close> when one is \<open>NaN\<close>.\<close>

definition num_max :: "jsnum \<Rightarrow> jsnum \<Rightarrow> jsnum" where
  "num_max a b = (case num_lt a b of None \<Rightarrow> NaN | Some lt \<Rightarrow> if lt then b else a)"

definition mathMax :: "jsval list \<Rightarrow> jsnum" where
  "mathMax vs = foldl (\<lambda>m v. num_max m (toNumber v)) NegInf vs"

text \<open>\<^verbatim>\<open>n.toFixed(2)\<close>.\<close>

definition toFixed :: "jsenv \<Rightarrow> jsnum \<Rightarrow> string" where
  "toFixed env n =
     (case n of NaN \<Rightarrow> ''NaN'' | PosInf \<Rightarrow> ''Infinity'' | NegInf \<Rightarrow> ''-Infinity''
      | Fin q \<Rightarrow> toFixed2 env q)"

text \<open>
  The number of elements of \<^verbatim>\<open>xs.slice(0, n)\<close> for an array of length \<open>len\<close>: \<open>n\<close> is
  truncated to an integer (\<open>NaN\<close> counting as 0), and a negative one counts from the end.
\<close>

definition sliceEnd :: "jsnum \<Rightarrow> nat \<Rightarrow> nat" where
  "sliceEnd n len =
     (case n of
        NaN \<Rightarrow> 0
      | PosInf \<Rightarrow> len
      | NegInf \<Rightarrow> 0
      | Fin q \<Rightarrow>
          (let k = (if q < 0 then \<lceil>q\<rceil> else \<lfloor>q\<rfloor>)
           in if k < 0 then nat (int len + k) else min (nat k) len))"

subsection \<open>Exceptions\<close>

definition bindE :: "error + 'a \<Rightarrow> ('a \<Rightarrow> error + 'b) \<Rightarrow> error + 'b" where
  "bindE m f = (case m of Inl e \<Rightarrow> Inl e | Inr x \<Rightarrow> f x)"

text \<open>
  \<^verbatim>\<open>xs.filter(p)\<close> and \<^verbatim>\<open>xs.map(f)\<close> for a function that may throw: the elements are
  taken in order, and the first exception ends the call.
\<close>

fun filterE :: "('a \<Rightarrow> error + bool) \<Rightarrow> 'a list \<Rightarrow> error + 'a list" where
  "filterE p [] = Inr []"
| "filterE p (x # xs) =
     (case p x of
        Inl e \<Rightarrow> Inl e
      | Inr b \<Rightarrow> (case filterE p xs of Inl e \<Rightarrow> Inl e | Inr ys \<Rightarrow> Inr (if b then x # ys else ys)))"

fun mapE :: "('a \<Rightarrow> error + 'b) \<Rightarrow> 'a list \<Rightarrow> error + 'b list" where
  "mapE f [] = Inr []"
| "mapE f (x # xs) =
     (case f x of
        Inl e \<Rightarrow> Inl e
      | Inr y \<Rightarrow> (case mapE f xs of Inl e \<Rightarrow> Inl e | Inr ys \<Rightarrow> Inr (y # ys)))"

text \<open>
  Method calls on a field of a record: \<^verbatim>\<open>v.toLowerCase()\<close>, \<^verbatim>\<open>v.startsWith(p)\<close>, ... throw
  a TypeError unless \<open>v\<close> is a string.
\<close>

definition asString :: "jsval \<Rightarrow> error + string" where
  "asString v = (case v of Str s \<Rightarrow> Inr s | _ \<Rightarrow> Inl TypeError)"

text \<open>\<^verbatim>\<open>if (parsed.x) filtered = ...\<close>: the test is one of truthiness.\<close>

definition whenTruthy :: "json option \<Rightarrow> (json \<Rightarrow> 'a \<Rightarrow> error + 'a) \<Rightarrow> 'a \<Rightarrow> error + 'a" where
  "whenTruthy x f a =
     (case x of None \<Rightarrow> Inr a | Some j \<Rightarrow> if truthyJ (Some j) then f j a else Inr a)"

subsection \<open>Predicate filtering\<close>

text \<open>
  The predicate of the customer filter of \<^verbatim>\<open>index.js\<close> and \<^verbatim>\<open>part_000\<close>;
  \<open>kw\<close> is \<^verbatim>\<open>parsed.customer.toLowerCase()\<close>.  The operator \<^verbatim>\<open>||\<close> between the three tests
  does not evaluate what follows a test that holds.
\<close>

definition customerMatch :: "string \<Rightarrow> jsobj \<Rightarrow> error + bool" where
  "customerMatch kw so =
     bindE (asString (js_or (so ''Name_Cust'') (Str ''''))) (\<lambda>a.
       if js_includes (toLowerCase a) kw then Inr True
       else bindE (asString (js_or (so ''ContractDescription_TransH'') (Str ''''))) (\<lambda>b.
         if js_includes (toLowerCase b) kw then Inr True
         else bindE (asString (js_or (so ''Memo_TransH'') (Str ''''))) (\<lambda>c.
           Inr (js_includes (toLowerCase c) kw))))"

text \<open>
  \<^verbatim>\<open>const kw = parsed.customer.toLowerCase()\<close>, evaluated before any record is looked
  at, and the filter.
\<close>

definition customerFilter :: "json \<Rightarrow> jsobj list \<Rightarrow> error + jsobj list" where
  "customerFilter c xs = bindE (asStringJ c) (\<lambda>s. filterE (customerMatch (toLowerCase s)) xs)"

text \<open>
  The \<^verbatim>\<open>switch (operator)\<close> of the threshold filter; \<open>operator\<close> and \<open>value\<close> are the two
  properties of \<^verbatim>\<open>parsed.gpThreshold\<close>, and \<open>g\<close> is \<^verbatim>\<open>o.gpRate\<close>.
\<close>

definition gpMatch :: "(rat \<Rightarrow> string) \<Rightarrow> json option \<Rightarrow> json option \<Rightarrow> jsval \<Rightarrow> bool" where
  "gpMatch nts operator val g =
     (let v = (case val of None \<Rightarrow> Undefined | Some j \<Rightarrow> toPrimitive nts j)
      in if operator = Some (JStr ''>'') then js_lt v g = Some True
         else if operator = Some (JStr ''<'') then js_lt g v = Some True
         else if operator = Some (JStr ''>='') then js_lt g v = Some False
         else if operator = Some (JStr ''<='') then js_lt v g = Some False
         else if operator = Some (JStr ''='') then
           (case val of None \<Rightarrow> strict_eq g Undefined | Some j \<Rightarrow> strict_eqJ g j)
         else True)"

definition gpFilter :: "(rat \<Rightarrow> string) \<Rightarrow> json \<Rightarrow> jsobj list \<Rightarrow> jsobj list" where
  "gpFilter nts th xs =
     filter (\<lambda>so. gpMatch nts (propJ th ''operator'') (propJ th ''value'') (so ''gpRate'')) xs"

text \<open>\<^verbatim>\<open>filterOrders\<close> of \<^verbatim>\<open>index.js\<close>: customer, threshold, date, year.\<close>

definition filterOrders :: "jsenv \<Rightarrow> jsobj list \<Rightarrow> descriptor \<Rightarrow> error + jsobj list" where
  "filterOrders env orders parsed =
     bindE (whenTruthy (map_of parsed ''customer'') customerFilter orders) (\<lambda>f1.
     bindE (whenTruthy (map_of parsed ''gpThreshold'')
              (\<lambda>th xs. Inr (gpFilter (numberToString env) th xs)) f1) (\<lambda>f2.
     bindE (whenTruthy (map_of parsed ''date'')
              (\<lambda>d xs. Inr (filter (\<lambda>so. strict_eqJ (so ''DateCreated_TransH'') d) xs)) f2) (\<lambda>f3.
     whenTruthy (map_of parsed ''year'')
       (\<lambda>y. filterE (\<lambda>so. bindE (asString (so ''DateCreated_TransH''))
          (\<lambda>d. Inr (startsWith d (toStringJ (numberToString env) y))))) f3)))"

text \<open>
  \<^verbatim>\<open>filterOrders\<close> of \<^verbatim>\<open>part_000\<close>: customer, threshold, salesRep, year, date, status,
  on the fields \<^verbatim>\<open>salesRep\<close>, \<^verbatim>\<open>date\<close> and \<^verbatim>\<open>status\<close> that normalization adds.
\<close>

definition filterOrders_p0 :: "jsenv \<Rightarrow> jsobj list \<Rightarrow> descriptor \<Rightarrow> error + jsobj list" where
  "filterOrders_p0 env orders parsed =
     bindE (whenTruthy (map_of parsed ''customer'') customerFilter orders) (\<lambda>f1.
     bindE (whenTruthy (map_of parsed ''gpThreshold'')
              (\<lambda>th xs. Inr (gpFilter (numberToString env) th xs)) f1) (\<lambda>f2.
     bindE (whenTruthy (map_of parsed ''salesRep'')
              (\<lambda>r. filterE (\<lambda>so. bindE (asString (js_or (so ''salesRep'') (Str '''')))
                 (\<lambda>x. bindE (asStringJ r) (\<lambda>s. Inr (toLowerCase x = toLowerCase s))))) f2) (\<lambda>f3.
     bindE (whenTruthy (map_of parsed ''year'')
              (\<lambda>y. filterE (\<lambda>so. bindE (asString (so ''date''))
                 (\<lambda>d. Inr (startsWith d (toStringJ (numberToString env) y))))) f3) (\<lambda>f4.
     bindE (whenTruthy (map_of parsed ''date'')
              (\<lambda>d xs. Inr (filter (\<lambda>so. strict_eqJ (so ''date'') d) xs)) f4) (\<lambda>f5.
     whenTruthy (map_of parsed ''status'')
       (\<lambda>st. filterE (\<lambda>so. bindE (asString (js_or (so ''status'') (Str '''')))
          (\<lambda>x. bindE (asStringJ st) (\<lambda>s. Inr (toLowerCase (trim x) = toLowerCase (trim s))))))
       f5)))))"

text \<open>
  \<^verbatim>\<open>parseInt\<close> of a string, radix not given: blanks, a sign, then hexadecimal digits after
  \<^verbatim>\<open>0x\<close> or decimal digits; \<open>NaN\<close> when no digit is found.
\<close>

definition parseInt :: "string \<Rightarrow> jsnum" where
  "parseInt s =
     (let t = dropWhile isWs s;
          minus = (case t of [] \<Rightarrow> False | c # _ \<Rightarrow> c = CHR ''-'');
          u = (case t of [] \<Rightarrow> t | c # r \<Rightarrow> if c = CHR ''+'' \<or> c = CHR ''-'' then r else t);
          hex = (take 2 u = ''0x'' \<or> take 2 u = ''0X'');
          ds = (if hex then takeWhile (\<lambda>c. hexVal c \<noteq> None) (drop 2 u) else takeWhile isDigit u);
          n = (if hex then digitsVal 16 hexVal ds else digitsVal 10 digitVal ds)
      in if ds = [] then NaN else Fin (if minus then - of_nat n else of_nat n))"

text \<open>
  \<^verbatim>\<open>filterOrders\<close> of \<^verbatim>\<open>part_001\<close>: customer, salesRep, status, date, year, with no
  guard on the fields and no threshold filter; the dates go through \<^verbatim>\<open>Date\<close>.
\<close>

definition filterOrders_p1 :: "jsenv \<Rightarrow> jsobj list \<Rightarrow> descriptor \<Rightarrow> error + jsobj list" where
  "filterOrders_p1 env orders parsed =
     bindE (whenTruthy (map_of parsed ''customer'')
              (\<lambda>c. filterE (\<lambda>so. bindE (asString (so ''customer''))
                 (\<lambda>x. bindE (asStringJ c)
                    (\<lambda>s. Inr (js_includes (toLowerCase x) (toLowerCase s)))))) orders) (\<lambda>f1.
     bindE (whenTruthy (map_of parsed ''salesRep'')
              (\<lambda>r. filterE (\<lambda>so. bindE (asString (so ''salesRep''))
                 (\<lambda>x. bindE (asStringJ r) (\<lambda>s. Inr (toLowerCase x = toLowerCase s))))) f1) (\<lambda>f2.
     bindE (whenTruthy (map_of parsed ''status'')
              (\<lambda>st. filterE (\<lambda>so. bindE (asString (so ''status''))
                 (\<lambda>x. bindE (asStringJ st) (\<lambda>s. Inr (toLowerCase x = toLowerCase s))))) f2) (\<lambda>f3.
     bindE (whenTruthy (map_of parsed ''date'')
              (\<lambda>d. filterE (\<lambda>so. case toISODay env (so ''date_created'') of
                   None \<Rightarrow> Inl RangeError | Some x \<Rightarrow> Inr (d = JStr x))) f3) (\<lambda>f4.
     whenTruthy (map_of parsed ''year'')
       (\<lambda>y xs. Inr (filter (\<lambda>so. case getFullYear env (so ''date_created'') of
            None \<Rightarrow> False
          | Some n \<Rightarrow> Fin (of_int n) = parseInt (toStringJ (numberToString env) y)) xs)) f4))))"

text \<open>
  The block of filters at the head of \<^verbatim>\<open>formatResponse\<close> of \<^verbatim>\<open>index.js\<close>, which runs on
  the result of \<^verbatim>\<open>filterOrders\<close>: salesRep, year, date (through \<^verbatim>\<open>Date\<close>; the date of the
  descriptor is converted first, before any record is looked at), the month of
  September 2025 when the question names it, status.
\<close>

definition formatResponse_filters ::
  "jsenv \<Rightarrow> descriptor \<Rightarrow> string \<Rightarrow> jsobj list \<Rightarrow> error + jsobj list" where
  "formatResponse_filters env parsed question orders =
     bindE (whenTruthy (map_of parsed ''salesRep'')
              (\<lambda>r. filterE (\<lambda>so. bindE (asString (js_or (so ''Name_Empl'') (Str '''')))
                 (\<lambda>x. bindE (asStringJ r) (\<lambda>s. Inr (toLowerCase x = toLowerCase s))))) orders) (\<lambda>f1.
     bindE (whenTruthy (map_of parsed ''year'')
              (\<lambda>y. filterE (\<lambda>so. bindE (asString (so ''DateCreated_TransH''))
                 (\<lambda>d. Inr (startsWith d (toStringJ (numberToString env) y))))) f1) (\<lambda>f2.
     bindE (whenTruthy (map_of parsed ''date'')
              (\<lambda>d xs. case toISODay env (toPrimitive (numberToString env) d) of
                   None \<Rightarrow> Inl RangeError
                 | Some targetDate \<Rightarrow>
                     filterE (\<lambda>so. case toISODay env (so ''DateCreated_TransH'') of
                        None \<Rightarrow> Inl RangeError | Some orderDate \<Rightarrow> Inr (orderDate = targetDate)) xs)
              f2) (\<lambda>f3.
     bindE (Inr (if js_includes (toLowerCase question) ''september 2025''
                 then filter (\<lambda>so. getFullYear env (so ''DateCreated_TransH'') = Some 2025
                                 \<and> getMonth env (so ''DateCreated_TransH'') = Some 8) f3
                 else f3)) (\<lambda>f4.
     whenTruthy (map_of parsed ''status'')
       (\<lambda>st. filterE (\<lambda>so. bindE (asString (js_or (so ''Status_TransH'') (Str '''')))
          (\<lambda>x. bindE (asStringJ st) (\<lambda>s. Inr (toLowerCase (trim x) = toLowerCase (trim s))))))
       f4))))"

subsection \<open>Aggregation\<close>

text \<open>
  The answer of \<^verbatim>\<open>formatResponse\<close>: a text, or (\<open>General\<close>) the text that the language
  model gives for the question, in the variants that can call it.
\<close>

datatype answer = Reply string | General string

definition newline :: string where
  "newline = [CHR 0x0A]"

text \<open>
  \<^verbatim>\<open>o[f]\<close> for a name that is not fixed in the source: a property that the record does
  not have is looked up in \<^verbatim>\<open>Object.prototype\<close>.
\<close>

definition getProp :: "jsenv \<Rightarrow> jsobj \<Rightarrow> string \<Rightarrow> jsval" where
  "getProp env so f =
     (if so f = Undefined then (case protoText env f of Some t \<Rightarrow> Str t | None \<Rightarrow> Undefined)
      else so f)"

text \<open>\<^verbatim>\<open>v != null ? v : "N/A"\<close>.\<close>

definition notNullOr :: "jsval \<Rightarrow> jsval" where
  "notNullOr v = (if v = Undefined \<or> v = Null then Str ''N/A'' else v)"

text \<open>
  \<^verbatim>\<open>mapFields\<close> of \<^verbatim>\<open>index.js\<close>: the text of one requested field, the line for a record
  when no field is requested, and the whole.  The test is
  \<^verbatim>\<open>parsed.fields && parsed.fields.length\<close>; when it holds for a value that is not an
  array (a string, or an object with a truthy \<^verbatim>\<open>length\<close>), \<^verbatim>\<open>parsed.fields.map\<close> is not a
  function and the call throws a TypeError.
\<close>

definition fieldText :: "jsenv \<Rightarrow> jsobj \<Rightarrow> json \<Rightarrow> string" where
  "fieldText env so f =
     (if f = JStr ''status'' then
        ''status: '' @ toString (numberToString env) (js_or (so ''Status_TransH'') (Str ''N/A''))
      else if f = JStr ''so_number'' then
        ''so_number: '' @ toString (numberToString env) (js_or (so ''so_upk'') (Str ''N/A''))
      else if f = JStr ''gp_rate'' then
        ''gp_rate: '' @ toString (numberToString env) (notNullOr (so ''gpRate''))
      else if f = JStr ''amount'' then
        ''amount: '' @ toString (numberToString env) (notNullOr (so ''amount''))
      else toStringJ (numberToString env) f @ '': ''
        @ toString (numberToString env)
            (js_or (getProp env so (toStringJ (numberToString env) f)) (Str ''N/A'')))"

definition plainLine :: "jsenv \<Rightarrow> jsobj \<Rightarrow> string" where
  "plainLine env so =
     ''so_number: '' @ toString (numberToString env) (js_or (so ''so_upk'') (Str ''N/A''))
     @ '' - gp_rate: '' @ toString (numberToString env) (notNullOr (so ''gpRate''))
     @ '' - amount: '' @ toString (numberToString env) (js_or (so ''amount'') (Str ''N/A''))"

definition mapFields :: "jsenv \<Rightarrow> descriptor \<Rightarrow> jsobj \<Rightarrow> error + string" where
  "mapFields env parsed so =
     (case map_of parsed ''fields'' of
        Some (JArr fs) \<Rightarrow>
          if fs \<noteq> [] then Inr (join '' - '' (map (fieldText env so) fs)) else Inr (plainLine env so)
      | Some (JStr s) \<Rightarrow> if s \<noteq> [] then Inl TypeError else Inr (plainLine env so)
      | Some (JObj props) \<Rightarrow>
          if truthyJ (map_of props ''length'') then Inl TypeError else Inr (plainLine env so)
      | _ \<Rightarrow> Inr (plainLine env so))"

text \<open>The \<^verbatim>\<open>count\<close> intent of \<^verbatim>\<open>index.js\<close>.\<close>

definition totalAmountOf :: "jsenv \<Rightarrow> jsobj list \<Rightarrow> jsval" where
  "totalAmountOf env filtered =
     foldl (\<lambda>sum so. js_plus env sum (js_or (so ''amount'') (Num (Fin 0))))
       (Num (Fin 0)) filtered"

definition highestGpOf :: "jsobj list \<Rightarrow> jsnum" where
  "highestGpOf filtered = mathMax (map (\<lambda>so. js_or (so ''gpRate'') (Num (Fin 0))) filtered)"

definition countReply :: "jsenv \<Rightarrow> jsobj list \<Rightarrow> string" where
  "countReply env filtered =
     ''Total Sales Orders: '' @ showNat (length filtered) @ newline
     @ ''Total Amount: '' @ formatPeso env (toNumber (totalAmountOf env filtered)) @ newline
     @ ''Highest GP Rate: '' @ toFixed env (highestGpOf filtered) @ ''%''"

text \<open>
  The objects \<^verbatim>\<open>customerMap\<close>, \<^verbatim>\<open>divisionMap\<close>, \<^verbatim>\<open>salesMap\<close> and \<^verbatim>\<open>monthlyMap\<close>: the own
  properties in the order of their creation.  Reading a name that is not an own property
  finds the member of \<^verbatim>\<open>Object.prototype\<close> of that name, if there is one; assigning a
  number or a string to \<^verbatim>\<open>__proto__\<close> does nothing.
\<close>

type_synonym jsmap = "(string \<times> jsval) list"

definition mapGet :: "jsenv \<Rightarrow> jsmap \<Rightarrow> string \<Rightarrow> jsval" where
  "mapGet env m k =
     (case map_of m k of
        Some v \<Rightarrow> v
      | None \<Rightarrow> (case protoText env k of Some t \<Rightarrow> Str t | None \<Rightarrow> Undefined))"

definition mapSet :: "jsmap \<Rightarrow> string \<Rightarrow> jsval \<Rightarrow> jsmap" where
  "mapSet m k v = (if k = ''__proto__'' then m else mapPut m k v)"

text \<open>\<^verbatim>\<open>map[k] = (map[k] || 0) + amount\<close>.\<close>

definition addTo :: "jsenv \<Rightarrow> jsmap \<Rightarrow> string \<Rightarrow> jsval \<Rightarrow> jsmap" where
  "addTo env m k amt = mapSet m k (js_plus env (js_or (mapGet env m k) (Num (Fin 0))) amt)"

text \<open>
  \<^verbatim>\<open>Object.entries\<close>: the names that are array indices (canonical decimal numerals below
  \<open>2^32 - 1 = 4294967295\<close>) come first, in ascending numeric order, then the other names
  in the order of their creation.  A canonical numeral is below that bound when it has
  fewer than ten digits, or ten digits and comes before it in the order of strings.
\<close>

definition arrayIndex :: "string \<Rightarrow> bool" where
  "arrayIndex k =
     (k \<noteq> [] \<and> list_all isDigit k \<and> (k = ''0'' \<or> hd k \<noteq> CHR ''0'')
      \<and> (length k < 10 \<or> length k = 10 \<and> k < ''4294967295''))"

definition indexOf :: "string \<Rightarrow> nat" where
  "indexOf k = digitsVal 10 digitVal k"

definition entries :: "jsmap \<Rightarrow> jsmap" where
  "entries m =
     sort_key (\<lambda>kv. indexOf (fst kv)) (filter (\<lambda>kv. arrayIndex (fst kv)) m)
     @ filter (\<lambda>kv. \<not> arrayIndex (fst kv)) m"

text \<open>
  \<^verbatim>\<open>Array.prototype.sort\<close> with a comparator: the sort is stable, and for a consistent
  comparator its result is that of this insertion sort (an element goes before the
  first one it is strictly less than).  A comparator result of \<open>NaN\<close> counts as 0.
\<close>

fun insertBy :: "('a \<Rightarrow> 'a \<Rightarrow> int) \<Rightarrow> 'a \<Rightarrow> 'a list \<Rightarrow> 'a list" where
  "insertBy cmp x [] = [x]"
| "insertBy cmp x (y # ys) = (if cmp x y < 0 then x # y # ys else y # insertBy cmp x ys)"

definition js_sort :: "('a \<Rightarrow> 'a \<Rightarrow> int) \<Rightarrow> 'a list \<Rightarrow> 'a list" where
  "js_sort cmp xs = foldl (\<lambda>acc x. insertBy cmp x acc) [] xs"

text \<open>
  The sign of the difference \<open>b - a\<close> of two numbers, 0 when the difference is \<open>NaN\<close>.
  The difference of two finite numbers is rounded to binary64, and the rounding keeps
  its sign (the difference of two distinct binary64 numbers does not round to 0), so the
  sign is that of the exact difference.
\<close>

fun diffSign :: "jsnum \<Rightarrow> jsnum \<Rightarrow> int" where
  "diffSign NaN _ = 0"
| "diffSign _ NaN = 0"
| "diffSign (Fin y) (Fin x) = (if y < x then - 1 else if y = x then 0 else 1)"
| "diffSign PosInf PosInf = 0"
| "diffSign NegInf NegInf = 0"
| "diffSign PosInf _ = 1"
| "diffSign _ PosInf = - 1"
| "diffSign NegInf _ = - 1"
| "diffSign _ NegInf = 1"

text \<open>The comparator \<^verbatim>\<open>(a, b) => b[1] - a[1]\<close>, up to the sign of its result.\<close>

definition byAmountDesc :: "string \<times> jsval \<Rightarrow> string \<times> jsval \<Rightarrow> int" where
  "byAmountDesc a b = diffSign (toNumber (snd b)) (toNumber (snd a))"

text \<open>
  The intents \<^verbatim>\<open>topCustomers\<close>, \<^verbatim>\<open>topDivision\<close> and \<^verbatim>\<open>topSales\<close>: \<open>key\<close> is the field the
  records are grouped by, \<open>label\<close> the word of the line.  \<open>topCount\<close> is the number of
  elements of \<^verbatim>\<open>sorted.slice(0, parsed.topN || 1)\<close>.  The result is the array of lines
  that \<^verbatim>\<open>join("\n")\<close> is called on.
\<close>

definition groupSums :: "jsenv \<Rightarrow> string \<Rightarrow> jsobj list \<Rightarrow> jsmap" where
  "groupSums env key filtered =
     foldl (\<lambda>m so. addTo env m (toString (numberToString env) (so key)) (so ''amount'')) [] filtered"

definition topCount :: "jsenv \<Rightarrow> descriptor \<Rightarrow> nat \<Rightarrow> nat" where
  "topCount env parsed len =
     sliceEnd (toNumber (toPrimitive (numberToString env)
       (orElse (map_of parsed ''topN'') (JNum (Fin 1))))) len"

definition topGroups :: "jsenv \<Rightarrow> string \<Rightarrow> descriptor \<Rightarrow> jsobj list \<Rightarrow> jsmap" where
  "topGroups env key parsed filtered =
     (let sorted = js_sort byAmountDesc (entries (groupSums env key filtered))
      in take (topCount env parsed (length sorted)) sorted)"

definition topLines :: "jsenv \<Rightarrow> string \<Rightarrow> string \<Rightarrow> descriptor \<Rightarrow> jsobj list \<Rightarrow> string list" where
  "topLines env key label parsed filtered =
     map (\<lambda>(i, (k, amt)). ''Top '' @ showNat (i + 1) @ '' '' @ label @ '': '' @ k
            @ '' - Total Amount: '' @ formatPeso env (toNumber amt))
       (enumerate 0 (topGroups env key parsed filtered))"

text \<open>
  The intent \<^verbatim>\<open>monthlyTotals\<close>: the body of the \<^verbatim>\<open>forEach\<close>, which may throw, and the lines.
  \<open>dateKey\<close> and \<open>statusKey\<close> are the fields read: \<^verbatim>\<open>date\<close> and \<^verbatim>\<open>Status_TransH\<close> in
  \<^verbatim>\<open>index.js\<close>, \<^verbatim>\<open>date_created\<close> and \<^verbatim>\<open>status\<close> in \<^verbatim>\<open>part_001\<close>; \<open>rep\<close> is
  \<^verbatim>\<open>parsed.salesRep\<close>.
\<close>

definition validStatuses :: "string list" where
  "validStatuses =
     [''BILLED'', ''PARTIALLYBILLED/PARTIALLY DELIVERED'', ''PARTIALLY DELIVERED'',
      ''PENDING BILLING'', ''PENDING DELIVERY'', ''JO IN-PROCESS'']"

fun foldE :: "('b \<Rightarrow> 'a \<Rightarrow> error + 'b) \<Rightarrow> 'b \<Rightarrow> 'a list \<Rightarrow> error + 'b" where
  "foldE f m [] = Inr m"
| "foldE f m (x # xs) = (case f m x of Inl e \<Rightarrow> Inl e | Inr m' \<Rightarrow> foldE f m' xs)"

definition monthlyStep ::
  "jsenv \<Rightarrow> string \<Rightarrow> string \<Rightarrow> json \<Rightarrow> jsmap \<Rightarrow> jsobj \<Rightarrow> error + jsmap" where
  "monthlyStep env dateKey statusKey rep monthlyMap so =
     (if \<not> truthy (so dateKey) then Inr monthlyMap
      else if so statusKey \<notin> set (map Str validStatuses) then Inr monthlyMap
      else bindE (asString (so ''salesRep'')) (\<lambda>r.
        bindE (asStringJ rep) (\<lambda>s.
          if toLowerCase r \<noteq> toLowerCase s then Inr monthlyMap
          else bindE (asString (so dateKey)) (\<lambda>d.
            Inr (addTo env monthlyMap (take 7 d) (so ''amount''))))))"

definition monthlyMapOf ::
  "jsenv \<Rightarrow> string \<Rightarrow> string \<Rightarrow> json \<Rightarrow> jsobj list \<Rightarrow> error + jsmap" where
  "monthlyMapOf env dateKey statusKey rep filtered =
     foldE (monthlyStep env dateKey statusKey rep) [] filtered"

definition monthlySorted :: "jsenv \<Rightarrow> jsmap \<Rightarrow> jsmap" where
  "monthlySorted env monthlyMap =
     js_sort (\<lambda>a b. localeCompare env (fst a) (fst b)) (entries monthlyMap)"

definition monthlyReply :: "jsenv \<Rightarrow> string \<Rightarrow> string \<Rightarrow> jsmap \<Rightarrow> string" where
  "monthlyReply env rep yr monthlyMap =
     (let text = join newline
            (map (\<lambda>(month, amt). month @ '': '' @ formatPeso env (toNumber amt))
               (monthlySorted env monthlyMap))
      in if text = [] then ''No valid sales orders found for '' @ rep @ '' in '' @ yr else text)"

text \<open>
  The branch of the intent, entered when \<^verbatim>\<open>parsed.year\<close> and \<^verbatim>\<open>parsed.salesRep\<close> are
  truthy; the two are printed into the text by a template literal.
\<close>

definition monthlyTotals ::
  "jsenv \<Rightarrow> string \<Rightarrow> string \<Rightarrow> json \<Rightarrow> json \<Rightarrow> jsobj list \<Rightarrow> error + answer" where
  "monthlyTotals env dateKey statusKey rep yr filtered =
     bindE (monthlyMapOf env dateKey statusKey rep filtered)
       (\<lambda>monthlyMap. Inr (Reply
          (monthlyReply env (toStringJ (numberToString env) rep)
             (toStringJ (numberToString env) yr) monthlyMap)))"

text \<open>
  \<^verbatim>\<open>parsed.intent === "..."\<close>, and the value of a field that has been tested to be
  truthy.
\<close>

definition intentIs :: "descriptor \<Rightarrow> string \<Rightarrow> bool" where
  "intentIs parsed name = (map_of parsed ''intent'' = Some (JStr name))"

definition fieldOf :: "descriptor \<Rightarrow> string \<Rightarrow> json" where
  "fieldOf parsed f = (case map_of parsed f of Some j \<Rightarrow> j | None \<Rightarrow> JNull)"

text \<open>
  \<^verbatim>\<open>formatResponse\<close> of \<^verbatim>\<open>index.js\<close>: the chain of tests on the intent, which works on
  the set \<^verbatim>\<open>filtered\<close>, and the whole function.  The branch for the intent
  \<^verbatim>\<open>general\<close> and the fallback at the end of the chain begin with the call
  \<^verbatim>\<open>openai.chat.completions.create(...)\<close>; \<^verbatim>\<open>index.js\<close> never declares \<^verbatim>\<open>openai\<close>, so
  the evaluation of that identifier raises a ReferenceError and the two branches end in
  it (the handler of \<^verbatim>\<open>/chatbot\<close> answers it with the status 500).
\<close>

definition formatResponse_intents ::
  "jsenv \<Rightarrow> descriptor \<Rightarrow> string \<Rightarrow> jsobj list \<Rightarrow> error + answer" where
  "formatResponse_intents env parsed question filtered =
     (if intentIs parsed ''count'' then Inr (Reply (countReply env filtered))
      else if intentIs parsed ''list'' then
        bindE (mapE (mapFields env parsed) filtered) (\<lambda>ls. Inr (Reply (join newline ls)))
      else if intentIs parsed ''sample'' then
        (case filtered of [] \<Rightarrow> Inr (Reply ''No matching sales order found.'')
         | so # _ \<Rightarrow> bindE (mapFields env parsed so) (\<lambda>l. Inr (Reply l)))
      else if intentIs parsed ''topCustomers'' then
        Inr (Reply (join newline (topLines env ''Name_Cust'' ''Customer'' parsed filtered)))
      else if intentIs parsed ''topDivision'' then
        Inr (Reply (join newline (topLines env ''division'' ''Division'' parsed filtered)))
      else if intentIs parsed ''topSales'' then
        Inr (Reply (join newline (topLines env ''salesRep'' ''Sales Personnel'' parsed filtered)))
      else if intentIs parsed ''monthlyTotals'' \<and> truthyJ (map_of parsed ''year'')
              \<and> truthyJ (map_of parsed ''salesRep'') then
        monthlyTotals env ''date'' ''Status_TransH'' (fieldOf parsed ''salesRep'')
          (fieldOf parsed ''year'') filtered
      else Inl ReferenceError)"

definition formatResponse ::
  "jsenv \<Rightarrow> jsobj list \<Rightarrow> descriptor \<Rightarrow> string \<Rightarrow> error + answer" where
  "formatResponse env orders parsed question =
     (if intentIs parsed ''general'' then Inl ReferenceError
      else if length orders = 0 then Inr (Reply ''There are 0 sales orders matching your query.'')
      else bindE (formatResponse_filters env parsed question orders)
             (formatResponse_intents env parsed question))"

text \<open>
  \<^verbatim>\<open>formatResponse\<close> of \<^verbatim>\<open>part_001\<close>, which declares \<^verbatim>\<open>openai\<close>: the intent \<^verbatim>\<open>general\<close>
  is answered by the language model; there is no block of filters, no \<^verbatim>\<open>sample\<close> intent
  and no fallback, but a fixed text at the end of the chain.
\<close>

definition countReply_p1 :: "jsenv \<Rightarrow> jsobj list \<Rightarrow> string" where
  "countReply_p1 env orders =
     ''Total Sales Orders: '' @ showNat (length orders) @ newline
     @ ''Total Amount: '' @ formatPeso env (toNumber
          (foldl (\<lambda>sum so. js_plus env sum (so ''amount'')) (Num (Fin 0)) orders))
     @ newline
     @ ''Highest GP Rate: '' @ toFixed env (mathMax (map (\<lambda>so. so ''gp_rate'') orders)) @ ''%''"

definition listLine_p1 :: "jsenv \<Rightarrow> jsobj \<Rightarrow> string" where
  "listLine_p1 env so =
     ''so_number: '' @ toString (numberToString env) (so ''so_number'')
     @ '' - amount: '' @ formatPeso env (toNumber (so ''amount''))
     @ '' - gp_rate: '' @ toString (numberToString env) (so ''gp_rate'') @ ''%''
     @ '' - status: '' @ toString (numberToString env) (so ''status'')"

definition formatResponse_p1 ::
  "jsenv \<Rightarrow> jsobj list \<Rightarrow> descriptor \<Rightarrow> string \<Rightarrow> error + answer" where
  "formatResponse_p1 env orders parsed question =
     (if intentIs parsed ''general'' then Inr (General question)
      else if length orders = 0 then Inr (Reply ''No matching sales orders.'')
      else if intentIs parsed ''count'' then Inr (Reply (countReply_p1 env orders))
      else if intentIs parsed ''list'' then
        Inr (Reply (join newline (map (listLine_p1 env) orders)))
      else if intentIs parsed ''topSales'' then
        Inr (Reply (join newline (topLines env ''salesRep'' ''Sales Personnel'' parsed orders)))
      else if intentIs parsed ''topCustomers'' then
        Inr (Reply (join newline (topLines env ''customer'' ''Customer'' parsed orders)))
      else if intentIs parsed ''topDivision'' then
        Inr (Reply (join newline (topLines env ''division'' ''Division'' parsed orders)))
      else if intentIs parsed ''monthlyTotals'' \<and> truthyJ (map_of parsed ''year'')
              \<and> truthyJ (map_of parsed ''salesRep'') then
        monthlyTotals env ''date_created'' ''status'' (fieldOf parsed ''salesRep'')
          (fieldOf parsed ''year'') orders
      else Inr (Reply ''Intent not implemented yet.''))"

text \<open>
  \<^verbatim>\<open>getSalesOrdersByDateAndStatus\<close> of \<^verbatim>\<open>index.js\<close>, and the object it returns.  The peso
  sign is the three bytes of its UTF-8 encoding.
\<close>

record summary =
  total_sales_orders :: nat
  total_amount :: string
  highest_gp_rate :: string
  orders :: "jsobj list"



text \<open>
  Fragments of the runtime for the examples below: the dates of the examples and of
  \<^verbatim>\<open>null\<close>, the first day of 1970 (any other value counts as an invalid date, as
  \<^verbatim>\<open>undefined\<close> is), a currency format that prints the number, an
  \<^verbatim>\<open>Object.prototype\<close> with the member \<^verbatim>\<open>constructor\<close>, and a rounding that keeps
  the sum as it is: the amounts of the examples are whole numbers far below \<open>2^53\<close>, which
  binary64 holds exactly, as it holds their sums.
\<close>

definition datesTable :: "jsval \<Rightarrow> (string \<times> int \<times> nat) option" where
  "datesTable v =
     (if v = Str ''2024-03-01'' then Some (''2024-03-01'', 2024, 2)
      else if v = Str ''2024-03-02'' then Some (''2024-03-02'', 2024, 2)
      else if v = Str ''2025-09-15'' then Some (''2025-09-15'', 2025, 8)
      else if v = Null then Some (''1970-01-01'', 1970, 0)
      else None)"

definition envTable :: jsenv where
  "envTable =
     \<lparr>numberToString = ntsTable,
      roundNum = Fin,
      toFixed2 = (\<lambda>q. if q = 60 then ''60.00'' else if q = 0 then ''0.00'' else ''?''),
      formatPeso = numToString ntsTable,
      toLocaleStr = numToString ntsTable,
      toISODay = (\<lambda>v. map_option fst (datesTable v)),
      getFullYear = (\<lambda>v. map_option (\<lambda>d. fst (snd d)) (datesTable v)),
      getMonth = (\<lambda>v. map_option (\<lambda>d. snd (snd d)) (datesTable v)),
      localeCompare = (\<lambda>a b. if a < b then - 1 else if a = b then 0 else 1),
      protoText = (\<lambda>k. if k = ''constructor'' then Some ''function Object() { [native code] }''
                        else None)\<rparr>"

section \<open>The vocabulary of the claims\<close>

text \<open>
  Finite numbers as the claims speak of them, and the records and the descriptor of the
  example scenario of the specification, as \<^verbatim>\<open>index.js\<close> holds them after normalization.
\<close>

definition isFin :: "jsval \<Rightarrow> bool" where
  "isFin v = (case v of Num (Fin _) \<Rightarrow> True | _ \<Rightarrow> False)"

definition finOf :: "jsval \<Rightarrow> rat" where
  "finOf v = (case v of Num (Fin q) \<Rightarrow> q | _ \<Rightarrow> 0)"

definition exampleOrder1 :: jsobj where
  "exampleOrder1 = emptyObj
     (''so_pk'' := Num (Fin 1), ''amount'' := Num (Fin 1000), ''gpRate'' := Num (Fin 60),
      ''Name_Cust'' := Str ''Acme'', ''DateCreated_TransH'' := Str ''2024-03-01'',
      ''date'' := Str ''2024-03-01'', ''Status_TransH'' := Str ''BILLED'',
      ''status'' := Str ''BILLED'', ''Name_Empl'' := Str ''Ana'', ''salesRep'' := Str ''Ana'',
      ''division'' := Str ''North'')"

definition exampleOrder2 :: jsobj where
  "exampleOrder2 = emptyObj
     (''so_pk'' := Num (Fin 2), ''amount'' := Num (Fin 500), ''gpRate'' := Num (Fin 40),
      ''Name_Cust'' := Str ''Acme'', ''DateCreated_TransH'' := Str ''2024-03-02'',
      ''date'' := Str ''2024-03-02'', ''Status_TransH'' := Str ''BILLED'',
      ''status'' := Str ''BILLED'', ''Name_Empl'' := Str ''Ana'', ''salesRep'' := Str ''Ana'',
      ''division'' := Str ''South'')"

definition noConstraint :: "string \<Rightarrow> descriptor" where
  "noConstraint i =
     [(''intent'', JStr i), (''date'', JNull), (''gpThreshold'', JNull), (''customer'', JNull),
      (''salesRep'', JNull), (''status'', JNull), (''fields'', JArr []), (''topN'', JNull),
      (''year'', JNull)]"

text \<open>
  The constraints of a descriptor as the specification words them (section 4.4, step 1),
  on the fields of \<^verbatim>\<open>index.js\<close>: each is a property of one record, and a record
  satisfies the descriptor when it satisfies all that are supplied.  A constraint is
  supplied when its field is truthy; the text of a customer, a salesRep or a status is
  that of a string, and a year is read as its string.
\<close>

definition lowered :: "jsval \<Rightarrow> string option" where
  "lowered v = (case js_or v (Str '''') of Str s \<Rightarrow> Some (toLowerCase s) | _ \<Rightarrow> None)"

definition customerSat :: "string \<Rightarrow> jsobj \<Rightarrow> bool" where
  "customerSat kw so =
     list_ex (\<lambda>f. case lowered (so f) of Some t \<Rightarrow> js_includes t kw | None \<Rightarrow> False)
       [''Name_Cust'', ''ContractDescription_TransH'', ''Memo_TransH'']"

definition constraint :: "json option \<Rightarrow> (json \<Rightarrow> bool) \<Rightarrow> bool" where
  "constraint x P = (case x of None \<Rightarrow> True | Some j \<Rightarrow> \<not> truthyJ (Some j) \<or> P j)"

definition onText :: "json \<Rightarrow> (string \<Rightarrow> bool) \<Rightarrow> bool" where
  "onText j P = (case j of JStr s \<Rightarrow> P s | _ \<Rightarrow> False)"

definition satisfies :: "jsenv \<Rightarrow> descriptor \<Rightarrow> jsobj \<Rightarrow> bool" where
  "satisfies env parsed so =
     (constraint (map_of parsed ''customer'') (\<lambda>c. onText c (\<lambda>s. customerSat (toLowerCase s) so))
      \<and> constraint (map_of parsed ''gpThreshold'') (\<lambda>th.
           gpMatch (numberToString env) (propJ th ''operator'') (propJ th ''value'') (so ''gpRate''))
      \<and> constraint (map_of parsed ''salesRep'') (\<lambda>r.
           onText r (\<lambda>s. lowered (so ''Name_Empl'') = Some (toLowerCase s)))
      \<and> constraint (map_of parsed ''status'') (\<lambda>st. onText st (\<lambda>t.
           case js_or (so ''Status_TransH'') (Str '''') of
             Str s \<Rightarrow> toLowerCase (trim s) = toLowerCase (trim t) | _ \<Rightarrow> False))
      \<and> constraint (map_of parsed ''date'') (\<lambda>d. strict_eqJ (so ''DateCreated_TransH'') d)
      \<and> constraint (map_of parsed ''year'') (\<lambda>y.
           case so ''DateCreated_TransH'' of
             Str s \<Rightarrow> startsWith s (toStringJ (numberToString env) y) | _ \<Rightarrow> False))"

definition namesSeptember2025 :: "string \<Rightarrow> bool" where
  "namesSeptember2025 question = js_includes (toLowerCase question) ''september 2025''"

definition inSeptember2025 :: "jsenv \<Rightarrow> jsobj \<Rightarrow> bool" where
  "inSeptember2025 env so =
     (getFullYear env (so ''DateCreated_TransH'') = Some 2025
      \<and> getMonth env (so ''DateCreated_TransH'') = Some 8)"

text \<open>
  The set over which \<^verbatim>\<open>index.js\<close> computes an answer that is not general: the handler
  of \<^verbatim>\<open>/chatbot\<close> passes the result of \<^verbatim>\<open>filterOrders\<close> to \<^verbatim>\<open>formatResponse\<close>, which
  returns at once when that is empty and filters it again otherwise.
\<close>

definition answerSet :: "jsenv \<Rightarrow> jsobj list \<Rightarrow> descriptor \<Rightarrow> string \<Rightarrow> error + jsobj list" where
  "answerSet env allERPData parsed question =
     bindE (filterOrders env allERPData parsed) (\<lambda>found.
       if length found = 0 then Inr [] else formatResponse_filters env parsed question found)"

text \<open>
  The records that reach the year filter of \<^verbatim>\<open>filterOrders\<close> of \<^verbatim>\<open>index.js\<close>: those
  that the customer, the threshold and the date filter keep.
\<close>

definition reachesYear :: "jsenv \<Rightarrow> descriptor \<Rightarrow> jsobj \<Rightarrow> bool" where
  "reachesYear env parsed so =
     (constraint (map_of parsed ''customer'') (\<lambda>c. onText c (\<lambda>s. customerSat (toLowerCase s) so))
      \<and> constraint (map_of parsed ''gpThreshold'') (\<lambda>th.
           gpMatch (numberToString env) (propJ th ''operator'') (propJ th ''value'') (so ''gpRate''))
      \<and> constraint (map_of parsed ''date'') (\<lambda>d. strict_eqJ (so ''DateCreated_TransH'') d))"

definition isStr :: "jsval \<Rightarrow> bool" where
  "isStr v = (case v of Str _ \<Rightarrow> True | _ \<Rightarrow> False)"

text \<open>A field on which \<^verbatim>\<open>(v || "").toLowerCase()\<close> does not throw: a string or a falsy value.\<close>

definition textual :: "jsval \<Rightarrow> bool" where
  "textual v = isStr (js_or v (Str ''''))"

text \<open>
  A field of the descriptor on which \<^verbatim>\<open>parsed.f.toLowerCase()\<close> is not reached or does
  not throw: a falsy value or a string.
\<close>

definition textualJ :: "json option \<Rightarrow> bool" where
  "textualJ x = (case x of None \<Rightarrow> True | Some j \<Rightarrow> \<not> truthyJ (Some j) \<or> onText j (\<lambda>_. True))"

text \<open>
  The sums as the claims speak of them.  The sum of a list of numbers is the one that
  the runtime computes from 0 by adding them one after the other.  An amount or a rate
  that is a number or falsy counts as that number, a falsy one as 0.
\<close>

definition numSum :: "jsenv \<Rightarrow> jsnum list \<Rightarrow> jsnum" where
  "numSum env ns = foldl (num_add (roundNum env)) (Fin 0) ns"




text \<open>
  The groups as the claims speak of them: the name under which a record is grouped, the
  distinct names in the order of their first occurrence, the records of a group, and
  the total of a group, which is the sum of the amounts of its records.  A name is
  inherited when \<^verbatim>\<open>Object.prototype\<close> has a member of that name.
\<close>

definition groupKey :: "jsenv \<Rightarrow> string \<Rightarrow> jsobj \<Rightarrow> string" where
  "groupKey env key so = toString (numberToString env) (so key)"

definition firstSeen :: "'a list \<Rightarrow> 'a list" where
  "firstSeen ks = rev (remdups (rev ks))"

definition groupOf :: "jsenv \<Rightarrow> string \<Rightarrow> string \<Rightarrow> jsobj list \<Rightarrow> jsobj list" where
  "groupOf env key k xs = filter (\<lambda>so. groupKey env key so = k) xs"

definition groupTotal :: "jsenv \<Rightarrow> string \<Rightarrow> string \<Rightarrow> jsobj list \<Rightarrow> jsnum" where
  "groupTotal env key k xs = numSum env (map (\<lambda>so. toNumber (so ''amount'')) (groupOf env key k xs))"

definition inherited :: "jsenv \<Rightarrow> string \<Rightarrow> bool" where
  "inherited env k = (protoText env k \<noteq> None \<or> k = ''__proto__'')"

text \<open>
  The records that the monthly totals count, as the specification words it: a date is
  present, the status is on the allow-list, and the salesRep equals the wanted one up
  to case; and the month of a record, the first seven characters of its date.
\<close>

definition countsMonthly :: "string \<Rightarrow> string \<Rightarrow> json \<Rightarrow> jsobj \<Rightarrow> bool" where
  "countsMonthly dateKey statusKey rep so =
     (truthy (so dateKey) \<and> so statusKey \<in> set (map Str validStatuses)
      \<and> (case so ''salesRep'' of
           Str r \<Rightarrow> onText rep (\<lambda>s. toLowerCase r = toLowerCase s) | _ \<Rightarrow> False))"

definition monthOf :: "string \<Rightarrow> jsobj \<Rightarrow> string" where
  "monthOf dateKey so = (case so dateKey of Str d \<Rightarrow> take 7 d | _ \<Rightarrow> [])"

section \<open>Properties\<close>

subsection \<open>Paging and the loop over the years\<close>











subsection \<open>Merge\<close>

lemma mergeNewData_p1_append:
  "mergeNewData_p1 m b =
     m @ filter (\<lambda>so. so ''so_pk'' \<notin> (\<lambda>so. so ''so_pk'') ` set m) b"
  by (simp add: mergeNewData_p1_def Let_def)

lemma mergeNewData_p1_length:
  assumes "distinct (map (\<lambda>so. so ''so_pk'')
      (filter (\<lambda>so. so ''so_pk'' \<notin> (\<lambda>so. so ''so_pk'') ` set m) b))"
  shows "length (mergeNewData_p1 m b) =
    length m + card ((\<lambda>so. so ''so_pk'') ` set b - (\<lambda>so. so ''so_pk'') ` set m)"
proof -
  let ?pk = "\<lambda>so::jsobj. so ''so_pk''"
  let ?f = "filter (\<lambda>so. ?pk so \<notin> ?pk ` set m) b"
  have "card (set (map ?pk ?f)) = length (map ?pk ?f)"
    using assms by (rule distinct_card)
  moreover have "set (map ?pk ?f) = ?pk ` set b - ?pk ` set m"
    by auto
  ultimately show ?thesis
    by (simp add: mergeNewData_p1_append)
qed

lemma mergeNewData_p1_again:
  "mergeNewData_p1 (mergeNewData_p1 m b) b = mergeNewData_p1 m b"
proof -
  let ?pk = "\<lambda>so::jsobj. so ''so_pk''"
  let ?f = "filter (\<lambda>so. ?pk so \<notin> ?pk ` set m) b"
  have "filter (\<lambda>so. ?pk so \<notin> ?pk ` set (m @ ?f)) b = []"
    by (auto simp: filter_empty_conv)
  then show ?thesis
    by (simp only: mergeNewData_p1_append) simp
qed

lemma so_pk_disjoint:
  "set (map (\<lambda>so::jsobj. so ''so_pk'') m) \<inter>
   set (map (\<lambda>so::jsobj. so ''so_pk'')
     (filter (\<lambda>so. so ''so_pk'' \<notin> (\<lambda>so. so ''so_pk'') ` set m) b)) = {}"
  by (auto simp: image_iff)

lemma mergeNewData_p1_distinct:
  assumes "distinct (map (\<lambda>so. so ''so_pk'')
      (filter (\<lambda>so. so ''so_pk'' \<notin> (\<lambda>so. so ''so_pk'') ` set m) b))"
    and "distinct (map (\<lambda>so. so ''so_pk'') m)"
  shows "distinct (map (\<lambda>so. so ''so_pk'') (mergeNewData_p1 m b))"
proof -
  let ?pk = "\<lambda>so::jsobj. so ''so_pk''"
  let ?f = "filter (\<lambda>so. ?pk so \<notin> ?pk ` set m) b"
  have "set (map ?pk m) \<inter> set (map ?pk ?f) = {}"
    by (rule so_pk_disjoint)
  then show ?thesis
    using assms by (simp only: mergeNewData_p1_append map_append distinct_append)
qed

lemma mergeNewData_p1_present:
  assumes "so ''so_pk'' \<in> (\<lambda>so. so ''so_pk'') ` set m"
  shows "filter (\<lambda>x. x ''so_pk'' = so ''so_pk'') (mergeNewData_p1 m b) =
    filter (\<lambda>x. x ''so_pk'' = so ''so_pk'') m"
proof -
  have "filter (\<lambda>x. x ''so_pk'' = so ''so_pk'')
      (filter (\<lambda>so. so ''so_pk'' \<notin> (\<lambda>so. so ''so_pk'') ` set m) b) = []"
    using assms by (auto simp: filter_empty_conv)
  then show ?thesis
    by (simp add: mergeNewData_p1_append)
qed

text \<open>
  C1, as the code has it (\<^verbatim>\<open>mergeNewData\<close> of \<^verbatim>\<open>part_001\<close>, keyed on \<^verbatim>\<open>so_pk\<close>).  For
  every batch: the records that the array held stay where they were; the records of an
  identity that the array held are those it held before, so that no record of the
  batch with such an identity is added; every identity of the batch is held afterwards;
  and merging the same batch again changes nothing.  The array grows by the number of
  records of the batch whose identity it did not hold: by exactly the number of new
  identities when no new identity occurs twice in the batch, and then an array that
  held no identity twice still holds none twice.
\<close>

theorem mergeNewData_p1_dedup:
  "take (length allERPData) (mergeNewData_p1 allERPData newData) = allERPData
   \<and> (\<forall>so \<in> set newData. so ''so_pk'' \<in> (\<lambda>so. so ''so_pk'') ` set allERPData \<longrightarrow>
        filter (\<lambda>x. x ''so_pk'' = so ''so_pk'') (mergeNewData_p1 allERPData newData) =
          filter (\<lambda>x. x ''so_pk'' = so ''so_pk'') allERPData)
   \<and> (\<lambda>so. so ''so_pk'') ` set (mergeNewData_p1 allERPData newData) =
        (\<lambda>so. so ''so_pk'') ` set allERPData \<union> (\<lambda>so. so ''so_pk'') ` set newData
   \<and> mergeNewData_p1 (mergeNewData_p1 allERPData newData) newData =
        mergeNewData_p1 allERPData newData
   \<and> length (mergeNewData_p1 allERPData newData) =
        length allERPData
        + length (filter (\<lambda>so. so ''so_pk'' \<notin> (\<lambda>so. so ''so_pk'') ` set allERPData) newData)
   \<and> (distinct (map (\<lambda>so. so ''so_pk'')
          (filter (\<lambda>so. so ''so_pk'' \<notin> (\<lambda>so. so ''so_pk'') ` set allERPData) newData)) \<longrightarrow>
        length (mergeNewData_p1 allERPData newData) =
          length allERPData
          + card ((\<lambda>so. so ''so_pk'') ` set newData - (\<lambda>so. so ''so_pk'') ` set allERPData)
        \<and> (distinct (map (\<lambda>so. so ''so_pk'') allERPData) \<longrightarrow>
             distinct (map (\<lambda>so. so ''so_pk'') (mergeNewData_p1 allERPData newData))))"
proof -
  have 1: "take (length allERPData) (mergeNewData_p1 allERPData newData) = allERPData"
    by (simp add: mergeNewData_p1_append)
  have 2: "\<forall>so \<in> set newData. so ''so_pk'' \<in> (\<lambda>so. so ''so_pk'') ` set allERPData \<longrightarrow>
        filter (\<lambda>x. x ''so_pk'' = so ''so_pk'') (mergeNewData_p1 allERPData newData) =
          filter (\<lambda>x. x ''so_pk'' = so ''so_pk'') allERPData"
    using mergeNewData_p1_present by blast
  have 3: "(\<lambda>so. so ''so_pk'') ` set (mergeNewData_p1 allERPData newData) =
        (\<lambda>so. so ''so_pk'') ` set allERPData \<union> (\<lambda>so. so ''so_pk'') ` set newData"
    by (auto simp: mergeNewData_p1_append)
  have 4: "mergeNewData_p1 (mergeNewData_p1 allERPData newData) newData =
        mergeNewData_p1 allERPData newData"
    by (rule mergeNewData_p1_again)
  have 5: "length (mergeNewData_p1 allERPData newData) =
        length allERPData
        + length (filter (\<lambda>so. so ''so_pk'' \<notin> (\<lambda>so. so ''so_pk'') ` set allERPData) newData)"
    by (simp add: mergeNewData_p1_append)
  have 6: "distinct (map (\<lambda>so. so ''so_pk'')
          (filter (\<lambda>so. so ''so_pk'' \<notin> (\<lambda>so. so ''so_pk'') ` set allERPData) newData)) \<longrightarrow>
        length (mergeNewData_p1 allERPData newData) =
          length allERPData
          + card ((\<lambda>so. so ''so_pk'') ` set newData - (\<lambda>so. so ''so_pk'') ` set allERPData)
        \<and> (distinct (map (\<lambda>so. so ''so_pk'') allERPData) \<longrightarrow>
             distinct (map (\<lambda>so. so ''so_pk'') (mergeNewData_p1 allERPData newData)))"
    using mergeNewData_p1_length mergeNewData_p1_distinct by blast
  show ?thesis
    by (rule conjI[OF 1 conjI[OF 2 conjI[OF 3 conjI[OF 4 conjI[OF 5 6]]]]])
qed

theorem mergeNewData_p1_dedup_witness:
  "length (mergeNewData_p1 [emptyObj(''so_pk'' := Num (Fin 1))]
      [emptyObj(''so_pk'' := Num (Fin 1), ''amount'' := Num (Fin 100)),
       emptyObj(''so_pk'' := Num (Fin 2))]) = 2
   \<and> filter (\<lambda>x. x ''so_pk'' = Num (Fin 1))
       (mergeNewData_p1 [emptyObj(''so_pk'' := Num (Fin 1))]
          [emptyObj(''so_pk'' := Num (Fin 1), ''amount'' := Num (Fin 100)),
           emptyObj(''so_pk'' := Num (Fin 2))]) = [emptyObj(''so_pk'' := Num (Fin 1))]"
  using mergeNewData_p1_dedup
    [of "[emptyObj(''so_pk'' := Num (Fin 1))]"
        "[emptyObj(''so_pk'' := Num (Fin 1), ''amount'' := Num (Fin 100)),
          emptyObj(''so_pk'' := Num (Fin 2))]"]
  by (simp add: mergeNewData_p1_append)

text \<open>
  The claim as stated fails on a batch that carries one new identity twice: both
  records are appended, so the array grows by 2 where 1 identity is new.
\<close>

theorem mergeNewData_p1_duplicate_in_batch:
  "\<not> length (mergeNewData_p1 []
        [emptyObj(''so_pk'' := Num (Fin 1), ''amount'' := Num (Fin 100)),
         emptyObj(''so_pk'' := Num (Fin 1), ''amount'' := Num (Fin 50))])
      \<le> length ([] :: jsobj list)
        + card ((\<lambda>so. so ''so_pk'') ` set
            [emptyObj(''so_pk'' := Num (Fin 1), ''amount'' := Num (Fin 100)),
             emptyObj(''so_pk'' := Num (Fin 1), ''amount'' := Num (Fin 50))]
           - (\<lambda>so. so ''so_pk'') ` set ([] :: jsobj list))"
  by (simp add: mergeNewData_p1_append)

text \<open>
  \<^verbatim>\<open>mergeNewData\<close> of \<^verbatim>\<open>index.js\<close> assigns the batch to the array: what was merged before
  is gone, whatever the batch.
\<close>

lemma mergeNewData_replaces:
  "list_all dbQuery newData \<Longrightarrow>
     length (snd (mergeNewData dbQuery allERPData newData)) = length newData
   \<and> map (\<lambda>so. so ''so_pk'') (snd (mergeNewData dbQuery allERPData newData)) =
       map (\<lambda>so. so ''so_pk'') newData"
  by (simp add: mergeNewData_def)

lemma mergeNewData_loses_record:
  "snd (mergeNewData (\<lambda>_. True) [emptyObj(''so_pk'' := Num (Fin 1))] []) = []"
  by (simp add: mergeNewData_def)

subsection \<open>Normalization\<close>

lemmas parse_defs =
  parseFloat_def parseSigned_def parseUnsigned_def parseExponent_def startsWith_def
  isDigit_def digitVal_def isWs_def digitsVal_def pow10_def neg_def
  stringToNumber_def radixLiteral_def trim_def hexVal_def

lemma parseUnsigned_nonNegative:
  "parseUnsigned s = Some (v, r) \<Longrightarrow> nonNegative v"
  by (auto simp: parseUnsigned_def Let_def nonNegative_def pow10_def split: if_splits)

lemma parseFloat_sign:
  assumes "\<not> startsWith (dropWhile isWs s) ''-''"
  shows "parseFloat s = NaN \<or> nonNegative (parseFloat s)"
proof (cases "parseSigned (dropWhile isWs s)")
  case None
  then show ?thesis
    by (simp add: parseFloat_def)
next
  case (Some p)
  obtain v r where p: "p = (v, r)"
    by (cases p)
  have "\<exists>t. parseUnsigned t = Some (v, r)"
    using Some assms unfolding p
    by (auto simp: parseSigned_def startsWith_def split: list.splits if_splits)
  then have "nonNegative v"
    by (auto dest: parseUnsigned_nonNegative)
  then show ?thesis
    using Some by (simp add: parseFloat_def p)
qed

lemma parseFloat_zero: "parseFloat ''0'' = Fin 0"
  by (simp add: parse_defs)

text \<open>
  C5, as the code has it (\<^verbatim>\<open>summarizeERPData\<close> of \<^verbatim>\<open>index.js\<close>).  After normalization
  \<^verbatim>\<open>gpRate\<close> and \<^verbatim>\<open>amount\<close> are numbers, never strings.  A falsy (absent, null, empty, 0)
  upstream value gives 0.  A \<^verbatim>\<open>gpRate\<close> text loses its first \<^verbatim>\<open>%\<close> and its first \<^verbatim>\<open>,\<close> and
  is read by \<^verbatim>\<open>parseFloat\<close>, so that \<^verbatim>\<open>55.5%\<close> gives 55.5; the result is \<open>NaN\<close> or not
  negative unless what is left of the text, its leading white space skipped, starts with
  a minus sign.  \<^verbatim>\<open>amount\<close> is \<^verbatim>\<open>Number\<close> of \<^verbatim>\<open>TotalAmount_TransH\<close>, from which nothing
  is removed.  The number need not be finite or positive: the rate \<^verbatim>\<open>abc\<close> and the
  amount \<^verbatim>\<open>1,000\<close> give \<open>NaN\<close>, and the rate \<^verbatim>\<open>-5%\<close> gives -5.
\<close>

theorem summarizeOne_numeric:
  "(\<exists>n. summarizeOne nts so ''gpRate'' = Num n)
   \<and> (\<exists>n. summarizeOne nts so ''amount'' = Num n)
   \<and> (\<not> truthy (so ''gpRate'') \<longrightarrow> summarizeOne nts so ''gpRate'' = Num (Fin 0))
   \<and> (\<not> truthy (so ''TotalAmount_TransH'') \<longrightarrow> summarizeOne nts so ''amount'' = Num (Fin 0))
   \<and> (so ''gpRate'' = Str ''55.5%'' \<longrightarrow> summarizeOne nts so ''gpRate'' = Num (Fin (111 / 2)))
   \<and> (\<forall>s. so ''gpRate'' = Str s \<and> s \<noteq> [] \<longrightarrow>
         summarizeOne nts so ''gpRate'' =
           Num (parseFloat (remove1 CHR '','' (remove1 CHR ''%'' s)))
         \<and> (\<not> startsWith (dropWhile isWs (remove1 CHR '','' (remove1 CHR ''%'' s))) ''-'' \<longrightarrow>
              summarizeOne nts so ''gpRate'' = Num NaN
              \<or> (\<exists>n. summarizeOne nts so ''gpRate'' = Num n \<and> nonNegative n)))
   \<and> (truthy (so ''TotalAmount_TransH'') \<longrightarrow>
         summarizeOne nts so ''amount'' = Num (toNumber (so ''TotalAmount_TransH'')))
   \<and> (so ''gpRate'' = Str ''abc'' \<longrightarrow> summarizeOne nts so ''gpRate'' = Num NaN)
   \<and> (so ''TotalAmount_TransH'' = Str ''1,000'' \<longrightarrow> summarizeOne nts so ''amount'' = Num NaN)
   \<and> (so ''gpRate'' = Str ''-5%'' \<longrightarrow> summarizeOne nts so ''gpRate'' = Num (Fin (- 5)))"
proof -
  have gp: "summarizeOne nts so ''gpRate'' =
      Num (parseFloat (remove1 CHR '','' (remove1 CHR ''%''
        (toString nts (js_or (so ''gpRate'') (Str ''0''))))))"
    by (simp add: summarizeOne_def)
  have am: "summarizeOne nts so ''amount'' =
      Num (toNumber (js_or (so ''TotalAmount_TransH'') (Num (Fin 0))))"
    by (simp add: summarizeOne_def)
  have c3: "\<not> truthy (so ''gpRate'') \<Longrightarrow> summarizeOne nts so ''gpRate'' = Num (Fin 0)"
    by (simp add: gp js_or_def parseFloat_zero)
  have c5: "so ''gpRate'' = Str ''55.5%'' \<Longrightarrow> summarizeOne nts so ''gpRate'' = Num (Fin (111 / 2))"
    by (simp add: gp js_or_def parse_defs)
  have c6: "summarizeOne nts so ''gpRate'' =
      Num (parseFloat (remove1 CHR '','' (remove1 CHR ''%'' s)))"
    if "so ''gpRate'' = Str s" "s \<noteq> []" for s
    using that by (simp add: gp js_or_def)
  have c7: "summarizeOne nts so ''gpRate'' = Num NaN
      \<or> (\<exists>n. summarizeOne nts so ''gpRate'' = Num n \<and> nonNegative n)"
    if "so ''gpRate'' = Str s" "s \<noteq> []"
      "\<not> startsWith (dropWhile isWs (remove1 CHR '','' (remove1 CHR ''%'' s))) ''-''" for s
    using parseFloat_sign[OF that(3)] c6[OF that(1,2)] by auto
  have c8: "so ''gpRate'' = Str ''abc'' \<Longrightarrow> summarizeOne nts so ''gpRate'' = Num NaN"
    by (simp add: gp js_or_def parse_defs)
  have c9: "so ''TotalAmount_TransH'' = Str ''1,000'' \<Longrightarrow> summarizeOne nts so ''amount'' = Num NaN"
    by (simp add: am js_or_def parse_defs)
  have c10: "so ''gpRate'' = Str ''-5%'' \<Longrightarrow> summarizeOne nts so ''gpRate'' = Num (Fin (- 5))"
    by (simp add: gp js_or_def parse_defs)
  have first: "(\<exists>n. summarizeOne nts so ''gpRate'' = Num n)
   \<and> (\<exists>n. summarizeOne nts so ''amount'' = Num n)
   \<and> (\<not> truthy (so ''gpRate'') \<longrightarrow> summarizeOne nts so ''gpRate'' = Num (Fin 0))
   \<and> (\<not> truthy (so ''TotalAmount_TransH'') \<longrightarrow> summarizeOne nts so ''amount'' = Num (Fin 0))
   \<and> (so ''gpRate'' = Str ''55.5%'' \<longrightarrow> summarizeOne nts so ''gpRate'' = Num (Fin (111 / 2)))
   \<and> (\<forall>s. so ''gpRate'' = Str s \<and> s \<noteq> [] \<longrightarrow>
         summarizeOne nts so ''gpRate'' =
           Num (parseFloat (remove1 CHR '','' (remove1 CHR ''%'' s)))
         \<and> (\<not> startsWith (dropWhile isWs (remove1 CHR '','' (remove1 CHR ''%'' s))) ''-'' \<longrightarrow>
              summarizeOne nts so ''gpRate'' = Num NaN
              \<or> (\<exists>n. summarizeOne nts so ''gpRate'' = Num n \<and> nonNegative n)))
   \<and> (truthy (so ''TotalAmount_TransH'') \<longrightarrow>
         summarizeOne nts so ''amount'' = Num (toNumber (so ''TotalAmount_TransH'')))"
    using c3 c5 c6 c7 by (simp add: am js_or_def) (simp add: gp)
  show ?thesis
    using first c8 c9 c10 by blast
qed

theorem summarizeOne_numeric_witness:
  "summarizeOne ntsTable (emptyObj(''gpRate'' := Str ''55.5%'')) ''gpRate'' = Num (Fin (111 / 2))
   \<and> summarizeOne ntsTable (emptyObj(''gpRate'' := Str ''55.5%'')) ''amount'' = Num (Fin 0)"
  using summarizeOne_numeric[of ntsTable "emptyObj(''gpRate'' := Str ''55.5%'')"]
  by (simp add: emptyObj_def)

text \<open>
  The claim as stated fails: a text with no numeric prefix gives \<open>NaN\<close>, not 0, for
  \<^verbatim>\<open>gpRate\<close> and for \<^verbatim>\<open>amount\<close> (where the comma of \<^verbatim>\<open>1,000\<close> is not removed), and a
  negative text gives a negative number.
\<close>

theorem summarizeOne_not_finite_nonnegative:
  "summarizeOne ntsTable
     (emptyObj(''gpRate'' := Str ''abc'', ''TotalAmount_TransH'' := Str ''1,000'')) ''gpRate''
     = Num NaN
   \<and> summarizeOne ntsTable
     (emptyObj(''gpRate'' := Str ''abc'', ''TotalAmount_TransH'' := Str ''1,000'')) ''amount''
     = Num NaN
   \<and> summarizeOne ntsTable (emptyObj(''gpRate'' := Str ''-5%'')) ''gpRate'' = Num (Fin (- 5))"
  by (simp add: summarizeOne_def emptyObj_def js_or_def parse_defs)







subsection \<open>Descriptor validation\<close>

lemma map_of_mapPut: "map_of (mapPut m k v) = (map_of m)(k \<mapsto> v)"
  by (induction m) (auto simp: fun_eq_iff)






















subsection \<open>Predicate filtering\<close>

lemma filterE_sound:
  assumes "filterE p xs = Inr ys" and "\<And>x b. x \<in> set xs \<Longrightarrow> p x = Inr b \<Longrightarrow> b = q x"
  shows "ys = filter q xs"
  using assms
proof (induction xs arbitrary: ys)
  case Nil
  then show ?case by simp
next
  case (Cons x xs)
  from Cons.prems(1) obtain b zs where b: "p x = Inr b" and zs: "filterE p xs = Inr zs"
    and ys: "ys = (if b then x # zs else zs)"
    by (auto split: sum.splits)
  have "zs = filter q xs"
    using zs Cons.prems(2) by (intro Cons.IH) auto
  moreover have "b = q x"
    using b Cons.prems(2) by auto
  ultimately show ?case
    by (simp add: ys)
qed

lemma filterE_total:
  assumes "\<And>x. x \<in> set xs \<Longrightarrow> \<exists>b. p x = Inr b"
  shows "\<exists>ys. filterE p xs = Inr ys"
  using assms
proof (induction xs)
  case Nil
  then show ?case by simp
next
  case (Cons x xs)
  then obtain b where "p x = Inr b"
    by (meson list.set_intros(1))
  moreover obtain ys where "filterE p xs = Inr ys"
    using Cons by (meson list.set_intros(2))
  ultimately show ?case
    by simp
qed

lemma filterE_throws:
  assumes "x \<in> set xs" and "p x = Inl e" and "\<And>y e'. p y = Inl e' \<Longrightarrow> e' = e"
  shows "filterE p xs = Inl e"
  using assms(1,2)
proof (induction xs)
  case Nil
  then show ?case by simp
next
  case (Cons y ys)
  show ?case
  proof (cases "p y")
    case (Inl e')
    then show ?thesis
      using assms(3) by simp
  next
    case (Inr b)
    then have "x \<in> set ys"
      using Cons.prems by auto
    then have "filterE p ys = Inl e"
      using Cons by simp
    then show ?thesis
      by (simp add: Inr)
  qed
qed

lemma whenTruthy_filterE:
  assumes "whenTruthy x (\<lambda>j. filterE (p j)) xs = Inr ys"
    and "\<And>j so b. so \<in> set xs \<Longrightarrow> p j so = Inr b \<Longrightarrow> b = P j so"
  shows "ys = filter (\<lambda>so. constraint x (\<lambda>j. P j so)) xs"
proof (cases "truthyJ x")
  case False
  then show ?thesis
    using assms(1) by (auto simp: whenTruthy_def constraint_def split: option.splits)
next
  case True
  then obtain j where j: "x = Some j"
    by (cases x) auto
  have "filterE (p j) xs = Inr ys"
    using assms(1) True by (simp add: whenTruthy_def j)
  then have "ys = filter (P j) xs"
    using assms(2) by (rule filterE_sound)
  then show ?thesis
    using True by (simp add: constraint_def j)
qed

lemma whenTruthy_filter:
  "whenTruthy x (\<lambda>j ys. Inr (filter (P j) ys)) xs =
     Inr (filter (\<lambda>so. constraint x (\<lambda>j. P j so)) xs)"
  by (auto simp: whenTruthy_def constraint_def split: option.splits)

lemma customerMatch_sound: "customerMatch kw so = Inr b \<Longrightarrow> b = customerSat kw so"
  by (auto simp: customerMatch_def customerSat_def lowered_def bindE_def asString_def
      split: jsval.splits if_splits)

lemma customer_stage:
  assumes "whenTruthy x customerFilter xs = Inr ys"
  shows "ys = filter (\<lambda>so. constraint x
    (\<lambda>c. onText c (\<lambda>s. customerSat (toLowerCase s) so))) xs"
proof (cases "truthyJ x")
  case False
  then show ?thesis
    using assms by (auto simp: whenTruthy_def constraint_def split: option.splits)
next
  case True
  then obtain c where c: "x = Some c"
    by (cases x) auto
  have run: "customerFilter c xs = Inr ys"
    using assms True by (simp add: whenTruthy_def c)
  then obtain s where s: "c = JStr s"
    by (cases c) (simp_all add: customerFilter_def asStringJ_def bindE_def)
  have "filterE (customerMatch (toLowerCase s)) xs = Inr ys"
    using run by (simp add: customerFilter_def asStringJ_def bindE_def s)
  then have "ys = filter (customerSat (toLowerCase s)) xs"
    by (rule filterE_sound) (rule customerMatch_sound)
  then show ?thesis
    using True by (simp add: constraint_def c s onText_def)
qed

lemma year_test_sound:
  "bindE (asString (so f)) (\<lambda>d. Inr (startsWith d y)) = Inr b \<Longrightarrow>
     b = (case so f of Str s \<Rightarrow> startsWith s y | _ \<Rightarrow> False)"
  by (auto simp: bindE_def asString_def split: jsval.splits)

lemma text_test_sound:
  "bindE (asString v) (\<lambda>x. bindE (asStringJ r) (\<lambda>s. Inr (Q x s))) = Inr b \<Longrightarrow>
     b = onText r (\<lambda>s. case v of Str x \<Rightarrow> Q x s | _ \<Rightarrow> False)"
  by (auto simp: bindE_def asString_def asStringJ_def onText_def
      split: jsval.splits json.splits)

lemma filterOrders_sound:
  assumes "filterOrders env xs parsed = Inr found"
  shows "found = filter (\<lambda>so.
      constraint (map_of parsed ''customer'') (\<lambda>c. onText c (\<lambda>s. customerSat (toLowerCase s) so))
      \<and> constraint (map_of parsed ''gpThreshold'') (\<lambda>th.
           gpMatch (numberToString env) (propJ th ''operator'') (propJ th ''value'') (so ''gpRate''))
      \<and> constraint (map_of parsed ''date'') (\<lambda>d. strict_eqJ (so ''DateCreated_TransH'') d)
      \<and> constraint (map_of parsed ''year'') (\<lambda>y.
           case so ''DateCreated_TransH'' of
             Str s \<Rightarrow> startsWith s (toStringJ (numberToString env) y) | _ \<Rightarrow> False)) xs"
proof -
  let ?gp = "\<lambda>th so. gpMatch (numberToString env) (propJ th ''operator'') (propJ th ''value'')
      (so ''gpRate'')"
  from assms obtain f1 where
    f1: "whenTruthy (map_of parsed ''customer'') customerFilter xs = Inr f1"
    and f4: "whenTruthy (map_of parsed ''year'')
        (\<lambda>y. filterE (\<lambda>so. bindE (asString (so ''DateCreated_TransH''))
           (\<lambda>d. Inr (startsWith d (toStringJ (numberToString env) y)))))
        (filter (\<lambda>so. constraint (map_of parsed ''date'')
            (\<lambda>d. strict_eqJ (so ''DateCreated_TransH'') d))
          (filter (\<lambda>so. constraint (map_of parsed ''gpThreshold'') (\<lambda>th. ?gp th so)) f1))
        = Inr found"
    by (auto simp: filterOrders_def bindE_def gpFilter_def whenTruthy_filter split: sum.splits)
  have 1: "f1 = filter (\<lambda>so. constraint (map_of parsed ''customer'')
      (\<lambda>c. onText c (\<lambda>s. customerSat (toLowerCase s) so))) xs"
    using f1 by (rule customer_stage)
  have 4: "found = filter (\<lambda>so. constraint (map_of parsed ''year'') (\<lambda>y.
      case so ''DateCreated_TransH'' of
        Str s \<Rightarrow> startsWith s (toStringJ (numberToString env) y) | _ \<Rightarrow> False))
      (filter (\<lambda>so. constraint (map_of parsed ''date'')
            (\<lambda>d. strict_eqJ (so ''DateCreated_TransH'') d))
          (filter (\<lambda>so. constraint (map_of parsed ''gpThreshold'') (\<lambda>th. ?gp th so)) f1))"
    using f4 by (rule whenTruthy_filterE) (rule year_test_sound)
  show ?thesis
    by (subst 4, subst 1, simp only: filter_filter) (auto intro!: filter_cong)
qed

lemma date_stage:
  assumes "whenTruthy x
      (\<lambda>d ys. case toISODay env (toPrimitive nts d) of
           None \<Rightarrow> Inl RangeError
         | Some targetDate \<Rightarrow>
             filterE (\<lambda>so. case toISODay env (so ''DateCreated_TransH'') of
                None \<Rightarrow> Inl RangeError | Some orderDate \<Rightarrow> Inr (orderDate = targetDate)) ys)
      xs = Inr ys"
    and "\<forall>so \<in> set xs. constraint x (\<lambda>d. strict_eqJ (so ''DateCreated_TransH'') d)"
  shows "ys = xs"
proof (cases "truthyJ x")
  case False
  then show ?thesis
    using assms(1) by (auto simp: whenTruthy_def split: option.splits)
next
  case True
  then obtain d where d: "x = Some d"
    by (cases x) auto
  from assms(1) True obtain t where t: "toISODay env (toPrimitive nts d) = Some t"
    and run: "filterE (\<lambda>so. case toISODay env (so ''DateCreated_TransH'') of
        None \<Rightarrow> Inl RangeError | Some orderDate \<Rightarrow> Inr (orderDate = t)) xs = Inr ys"
    by (auto simp: whenTruthy_def d split: option.splits)
  have "ys = filter (\<lambda>_. True) xs"
    using run
  proof (rule filterE_sound)
    fix so b
    assume "so \<in> set xs"
    then have "strict_eqJ (so ''DateCreated_TransH'') d"
      using assms(2) True by (auto simp: constraint_def d)
    then have "so ''DateCreated_TransH'' = toPrimitive nts d"
      by (auto simp: strict_eqJ_def toPrimitive_def strict_eq_def split: option.splits)
    then show "(case toISODay env (so ''DateCreated_TransH'') of
        None \<Rightarrow> Inl RangeError | Some orderDate \<Rightarrow> Inr (orderDate = t)) = Inr b \<Longrightarrow> b = True"
      by (simp add: t)
  qed
  then show ?thesis
    by simp
qed

lemma formatResponse_filters_sound:
  assumes "formatResponse_filters env parsed question xs = Inr ys"
    and "\<forall>so \<in> set xs. constraint (map_of parsed ''date'')
      (\<lambda>d. strict_eqJ (so ''DateCreated_TransH'') d)"
  shows "ys = filter (\<lambda>so.
      constraint (map_of parsed ''salesRep'') (\<lambda>r.
           onText r (\<lambda>s. lowered (so ''Name_Empl'') = Some (toLowerCase s)))
      \<and> constraint (map_of parsed ''year'') (\<lambda>y.
           case so ''DateCreated_TransH'' of
             Str s \<Rightarrow> startsWith s (toStringJ (numberToString env) y) | _ \<Rightarrow> False)
      \<and> (namesSeptember2025 question \<longrightarrow> inSeptember2025 env so)
      \<and> constraint (map_of parsed ''status'') (\<lambda>st. onText st (\<lambda>t.
           case js_or (so ''Status_TransH'') (Str '''') of
             Str s \<Rightarrow> toLowerCase (trim s) = toLowerCase (trim t) | _ \<Rightarrow> False))) xs"
proof -
  let ?sept = "\<lambda>zs. if js_includes (toLowerCase question) ''september 2025''
      then filter (\<lambda>so. getFullYear env (so ''DateCreated_TransH'') = Some 2025
                      \<and> getMonth env (so ''DateCreated_TransH'') = Some 8) zs
      else zs"
  from assms(1) obtain f1 f2 f3 where
    f1: "whenTruthy (map_of parsed ''salesRep'')
        (\<lambda>r. filterE (\<lambda>so. bindE (asString (js_or (so ''Name_Empl'') (Str '''')))
           (\<lambda>x. bindE (asStringJ r) (\<lambda>s. Inr (toLowerCase x = toLowerCase s))))) xs = Inr f1"
    and f2: "whenTruthy (map_of parsed ''year'')
        (\<lambda>y. filterE (\<lambda>so. bindE (asString (so ''DateCreated_TransH''))
           (\<lambda>d. Inr (startsWith d (toStringJ (numberToString env) y))))) f1 = Inr f2"
    and f3: "whenTruthy (map_of parsed ''date'')
        (\<lambda>d ys. case toISODay env (toPrimitive (numberToString env) d) of
             None \<Rightarrow> Inl RangeError
           | Some targetDate \<Rightarrow>
               filterE (\<lambda>so. case toISODay env (so ''DateCreated_TransH'') of
                  None \<Rightarrow> Inl RangeError | Some orderDate \<Rightarrow> Inr (orderDate = targetDate)) ys)
        f2 = Inr f3"
    and f5: "whenTruthy (map_of parsed ''status'')
        (\<lambda>st. filterE (\<lambda>so. bindE (asString (js_or (so ''Status_TransH'') (Str '''')))
           (\<lambda>x. bindE (asStringJ st) (\<lambda>s. Inr (toLowerCase (trim x) = toLowerCase (trim s))))))
        (?sept f3) = Inr ys"
    by (auto simp: formatResponse_filters_def bindE_def split: sum.splits)
  have 1: "f1 = filter (\<lambda>so. constraint (map_of parsed ''salesRep'') (\<lambda>r.
      onText r (\<lambda>s. lowered (so ''Name_Empl'') = Some (toLowerCase s)))) xs"
    using f1
    by (rule whenTruthy_filterE)
      (auto simp: bindE_def asString_def asStringJ_def lowered_def onText_def
        split: jsval.splits json.splits)
  have 2: "f2 = filter (\<lambda>so. constraint (map_of parsed ''year'') (\<lambda>y.
      case so ''DateCreated_TransH'' of
        Str s \<Rightarrow> startsWith s (toStringJ (numberToString env) y) | _ \<Rightarrow> False)) f1"
    using f2 by (rule whenTruthy_filterE) (rule year_test_sound)
  have "\<forall>so \<in> set f2. constraint (map_of parsed ''date'')
      (\<lambda>d. strict_eqJ (so ''DateCreated_TransH'') d)"
    using assms(2) by (simp add: 1 2)
  with f3 have 3: "f3 = f2"
    by (rule date_stage)
  have 4: "?sept f3 = filter (\<lambda>so. namesSeptember2025 question \<longrightarrow> inSeptember2025 env so) f3"
    by (simp add: namesSeptember2025_def inSeptember2025_def)
  have 5: "ys = filter (\<lambda>so. constraint (map_of parsed ''status'') (\<lambda>st. onText st (\<lambda>t.
      case js_or (so ''Status_TransH'') (Str '''') of
        Str s \<Rightarrow> toLowerCase (trim s) = toLowerCase (trim t) | _ \<Rightarrow> False))) (?sept f3)"
    using f5
    by (rule whenTruthy_filterE)
      (auto simp: bindE_def asString_def asStringJ_def onText_def
        split: jsval.splits json.splits)
  have "ys = filter (\<lambda>so. constraint (map_of parsed ''status'') (\<lambda>st. onText st (\<lambda>t.
      case js_or (so ''Status_TransH'') (Str '''') of
        Str s \<Rightarrow> toLowerCase (trim s) = toLowerCase (trim t) | _ \<Rightarrow> False)))
    (filter (\<lambda>so. namesSeptember2025 question \<longrightarrow> inSeptember2025 env so)
    (filter (\<lambda>so. constraint (map_of parsed ''year'') (\<lambda>y.
      case so ''DateCreated_TransH'' of
        Str s \<Rightarrow> startsWith s (toStringJ (numberToString env) y) | _ \<Rightarrow> False))
    (filter (\<lambda>so. constraint (map_of parsed ''salesRep'') (\<lambda>r.
      onText r (\<lambda>s. lowered (so ''Name_Empl'') = Some (toLowerCase s)))) xs)))"
    using 5 4 by (simp only: 3 2 1)
  then show ?thesis
    by (simp only: filter_filter) (auto intro!: filter_cong)
qed

text \<open>
  C2, as the code has it (\<^verbatim>\<open>index.js\<close>).  Whenever filtering raises no exception, the
  set over which the answer is computed holds exactly the records, in their order, that
  satisfy all supplied constraints and, when the question names September 2025, are
  dated in that month.  For a question that does not name it, the set is the set of
  the records that satisfy the constraints, whatever the question says; and it is the
  set that the chain of intents of \<^verbatim>\<open>formatResponse\<close> works on.
\<close>

theorem answerSet_conjunction:
  assumes "answerSet env allERPData parsed question = Inr fs"
  shows "fs = filter (\<lambda>so. satisfies env parsed so
                 \<and> (namesSeptember2025 question \<longrightarrow> inSeptember2025 env so)) allERPData
    \<and> (\<not> namesSeptember2025 question \<longrightarrow> fs = filter (satisfies env parsed) allERPData)
    \<and> (\<not> intentIs parsed ''general'' \<and> filterOrders env allERPData parsed = Inr found
          \<and> found \<noteq> [] \<longrightarrow>
        formatResponse env found parsed question =
          formatResponse_intents env parsed question fs)"
proof -
  from assms obtain fo where fo: "filterOrders env allERPData parsed = Inr fo"
    and rest: "(if length fo = 0 then Inr [] else formatResponse_filters env parsed question fo)
      = Inr fs"
    by (auto simp: answerSet_def bindE_def split: sum.splits)
  note first = filterOrders_sound[OF fo]
  have dates: "\<forall>so \<in> set fo. constraint (map_of parsed ''date'')
      (\<lambda>d. strict_eqJ (so ''DateCreated_TransH'') d)"
    by (subst first) simp
  have main: "fs = filter (\<lambda>so. satisfies env parsed so
      \<and> (namesSeptember2025 question \<longrightarrow> inSeptember2025 env so)) allERPData"
  proof (cases "fo = []")
    case True
    then have "fs = []"
      using rest by simp
    moreover have "filter (\<lambda>so. satisfies env parsed so
        \<and> (namesSeptember2025 question \<longrightarrow> inSeptember2025 env so)) allERPData = []"
      using True unfolding first by (auto simp: filter_empty_conv satisfies_def)
    ultimately show ?thesis
      by simp
  next
    case False
    then have "formatResponse_filters env parsed question fo = Inr fs"
      using rest by simp
    then have second: "fs = filter (\<lambda>so.
        constraint (map_of parsed ''salesRep'') (\<lambda>r.
             onText r (\<lambda>s. lowered (so ''Name_Empl'') = Some (toLowerCase s)))
        \<and> constraint (map_of parsed ''year'') (\<lambda>y.
             case so ''DateCreated_TransH'' of
               Str s \<Rightarrow> startsWith s (toStringJ (numberToString env) y) | _ \<Rightarrow> False)
        \<and> (namesSeptember2025 question \<longrightarrow> inSeptember2025 env so)
        \<and> constraint (map_of parsed ''status'') (\<lambda>st. onText st (\<lambda>t.
             case js_or (so ''Status_TransH'') (Str '''') of
               Str s \<Rightarrow> toLowerCase (trim s) = toLowerCase (trim t) | _ \<Rightarrow> False))) fo"
      using dates by (rule formatResponse_filters_sound)
    show ?thesis
      by (subst second, subst first, simp only: filter_filter)
        (auto simp: satisfies_def intro!: filter_cong)
  qed
  have link: "formatResponse env found parsed question =
      formatResponse_intents env parsed question fs"
    if "\<not> intentIs parsed ''general''" "filterOrders env allERPData parsed = Inr found"
      "found \<noteq> []"
    using that fo rest by (simp add: formatResponse_def bindE_def)
  show ?thesis
    using main link by simp
qed

lemma showNat_digit: "n < 10 \<Longrightarrow> showNat n = [''0123456789'' ! n]"
  by (subst showNat.simps) simp

lemmas engine_defs =
  formatResponse_def formatResponse_intents_def formatResponse_filters_def filterOrders_def
  whenTruthy_def bindE_def customerFilter_def intentIs_def fieldOf_def
  asString_def asStringJ_def js_or_def customerMatch_def toLowerCase_def lowerChar_def
  startsWith_def gpFilter_def gpMatch_def js_lt_def strict_eq_def strict_eqJ_def scalarOf_def
  toPrimitive_def propJ_def trim_def isWs_def
  countReply_def totalAmountOf_def highestGpOf_def mathMax_def num_max_def js_plus_def
  toFixed_def numToString_def newline_def envTable_def ntsTable_def datesTable_def
  exampleOrder1_def exampleOrder2_def noConstraint_def emptyObj_def showNat_digit

theorem answerSet_conjunction_witness:
  "answerSet envTable [exampleOrder1, exampleOrder2]
      (mapPut (noConstraint ''count'') ''customer'' (JStr ''acme'')) ''how many'' =
     Inr [exampleOrder1, exampleOrder2]
   \<and> [exampleOrder1, exampleOrder2] =
       filter (satisfies envTable (mapPut (noConstraint ''count'') ''customer'' (JStr ''acme'')))
         [exampleOrder1, exampleOrder2]"
proof -
  have run: "answerSet envTable [exampleOrder1, exampleOrder2]
      (mapPut (noConstraint ''count'') ''customer'' (JStr ''acme'')) ''how many'' =
     Inr [exampleOrder1, exampleOrder2]"
    by (simp add: answerSet_def engine_defs)
  have quiet: "\<not> namesSeptember2025 ''how many''"
    by (simp add: namesSeptember2025_def toLowerCase_def lowerChar_def startsWith_def)
  from answerSet_conjunction[OF run] quiet show ?thesis
    using run by blast
qed

text \<open>
  The claim as stated fails: the set depends on the text of the question.  The same
  record and the same descriptor, which supplies no constraint at all, give the record
  for one question and nothing for a question that names September 2025.
\<close>

theorem answerSet_depends_on_question:
  "answerSet envTable [exampleOrder1] (noConstraint ''count'') ''how many orders'' =
     Inr [exampleOrder1]
   \<and> answerSet envTable [exampleOrder1] (noConstraint ''count'')
       ''how many orders in September 2025'' = Inr []
   \<and> satisfies envTable (noConstraint ''count'') exampleOrder1"
  by (simp add: answerSet_def engine_defs satisfies_def constraint_def)

text \<open>\<^verbatim>\<open>filterOrders\<close> of \<^verbatim>\<open>part_001\<close> does not look at the threshold.\<close>

lemma filterOrders_p1_ignores_threshold:
  "filterOrders_p1 env xs (mapPut parsed ''gpThreshold'' th) = filterOrders_p1 env xs parsed"
  by (simp add: filterOrders_p1_def map_of_mapPut)

subsection \<open>The count intent\<close>














subsection \<open>Exceptions of the filtering step\<close>

lemma filterE_subset:
  assumes "filterE p xs = Inr ys"
  shows "set ys \<subseteq> set xs"
proof -
  have "ys = filter (\<lambda>x. p x = Inr True) xs"
    using assms by (rule filterE_sound) auto
  then show ?thesis
    by auto
qed

lemma filterE_error:
  assumes "filterE p xs = Inl e"
  shows "\<exists>x \<in> set xs. p x = Inl e"
  using assms
proof (induction xs)
  case Nil
  then show ?case by simp
next
  case (Cons x xs)
  then show ?case
    by (cases "p x"; cases "filterE p xs") auto
qed

lemma customerMatch_error: "customerMatch kw so = Inl e \<Longrightarrow> e = TypeError"
  by (auto simp: customerMatch_def bindE_def asString_def split: jsval.splits if_splits)

lemma customerMatch_total:
  assumes "textual (so ''Name_Cust'')" "textual (so ''ContractDescription_TransH'')"
    "textual (so ''Memo_TransH'')"
  shows "\<exists>b. customerMatch kw so = Inr b"
  using assms
  by (auto simp: customerMatch_def textual_def isStr_def bindE_def asString_def
      split: jsval.splits)

lemma customer_stage_error:
  assumes "whenTruthy x customerFilter xs = Inl e"
  shows "e = TypeError"
proof -
  from assms obtain c where c: "x = Some c" "truthyJ (Some c)" "customerFilter c xs = Inl e"
    by (auto simp: whenTruthy_def split: option.splits if_splits)
  show ?thesis
  proof (cases "asStringJ c")
    case (Inl e')
    then show ?thesis
      using c(3) by (auto simp: customerFilter_def bindE_def asStringJ_def split: json.splits)
  next
    case (Inr s)
    then have "filterE (customerMatch (toLowerCase s)) xs = Inl e"
      using c(3) by (simp add: customerFilter_def bindE_def)
    then show ?thesis
      using filterE_error customerMatch_error by blast
  qed
qed

lemma customer_stage_total:
  assumes "textualJ x"
    and "truthyJ x \<Longrightarrow> \<forall>so \<in> set xs. textual (so ''Name_Cust'')
      \<and> textual (so ''ContractDescription_TransH'') \<and> textual (so ''Memo_TransH'')"
  shows "\<exists>ys. whenTruthy x customerFilter xs = Inr ys"
proof (cases "truthyJ x")
  case False
  then show ?thesis
    by (auto simp: whenTruthy_def split: option.splits)
next
  case True
  then obtain s where s: "x = Some (JStr s)"
    using assms(1) by (cases x) (auto simp: textualJ_def onText_def split: json.splits)
  have "\<exists>ys. filterE (customerMatch (toLowerCase s)) xs = Inr ys"
    using assms(2)[OF True] by (intro filterE_total customerMatch_total) auto
  then show ?thesis
    using True by (simp add: whenTruthy_def s customerFilter_def asStringJ_def bindE_def)
qed

lemma year_stage_total:
  assumes "truthyJ x \<Longrightarrow> \<forall>so \<in> set xs. isStr (so f)"
  shows "\<exists>ys. whenTruthy x
    (\<lambda>y. filterE (\<lambda>so. bindE (asString (so f)) (\<lambda>d. Inr (P y d)))) xs = Inr ys"
proof (cases "truthyJ x")
  case False
  then show ?thesis
    by (auto simp: whenTruthy_def split: option.splits)
next
  case True
  then obtain y where y: "x = Some y"
    by (cases x) auto
  have "\<exists>ys. filterE (\<lambda>so. bindE (asString (so f)) (\<lambda>d. Inr (P y d))) xs = Inr ys"
  proof (rule filterE_total)
    fix so
    assume "so \<in> set xs"
    then have "isStr (so f)"
      using assms[OF True] by blast
    then show "\<exists>b. bindE (asString (so f)) (\<lambda>d. Inr (P y d)) = Inr b"
      by (auto simp: isStr_def bindE_def asString_def split: jsval.splits)
  qed
  then show ?thesis
    using True by (simp add: whenTruthy_def y)
qed

lemma unguarded_throws:
  assumes "so \<in> set xs" and "\<not> isStr (so f)"
    and "\<And>y d e'. g y d = Inl e' \<Longrightarrow> e' = TypeError"
  shows "filterE (\<lambda>so. bindE (asString (so f)) (g so)) xs = Inl TypeError"
  using assms(1)
proof (rule filterE_throws)
  show "bindE (asString (so f)) (g so) = Inl TypeError"
    using assms(2) by (auto simp: isStr_def bindE_def asString_def split: jsval.splits)
  show "e' = TypeError" if "bindE (asString (y f)) (g y) = Inl e'" for y e'
    using that assms(3) by (auto simp: bindE_def asString_def split: jsval.splits)
qed

lemma text_test_error:
  "bindE (asStringJ c) (\<lambda>s. Inr (Q s)) = Inl e' \<Longrightarrow> e' = TypeError"
  by (auto simp: bindE_def asStringJ_def split: json.splits)

lemma filterOrders_total:
  assumes "textualJ (map_of parsed ''customer'')"
    and "\<forall>so \<in> set xs.
      (truthyJ (map_of parsed ''customer'') \<longrightarrow> textual (so ''Name_Cust'')
         \<and> textual (so ''ContractDescription_TransH'') \<and> textual (so ''Memo_TransH''))
      \<and> (truthyJ (map_of parsed ''year'') \<and> reachesYear env parsed so \<longrightarrow>
           isStr (so ''DateCreated_TransH''))"
  shows "\<exists>fs. filterOrders env xs parsed = Inr fs"
proof -
  let ?gp = "\<lambda>th so. gpMatch (numberToString env) (propJ th ''operator'') (propJ th ''value'')
      (so ''gpRate'')"
  obtain f1 where f1: "whenTruthy (map_of parsed ''customer'') customerFilter xs = Inr f1"
    using customer_stage_total[OF assms(1), of xs] assms(2) by blast
  note 1 = customer_stage[OF f1]
  let ?f3 = "filter (\<lambda>so. constraint (map_of parsed ''date'')
            (\<lambda>d. strict_eqJ (so ''DateCreated_TransH'') d))
          (filter (\<lambda>so. constraint (map_of parsed ''gpThreshold'') (\<lambda>th. ?gp th so)) f1)"
  have reach: "\<forall>so \<in> set ?f3. so \<in> set xs \<and> reachesYear env parsed so"
    by (subst 1) (auto simp: reachesYear_def)
  have "\<exists>fs. whenTruthy (map_of parsed ''year'')
      (\<lambda>y. filterE (\<lambda>so. bindE (asString (so ''DateCreated_TransH''))
         (\<lambda>d. Inr (startsWith d (toStringJ (numberToString env) y))))) ?f3 = Inr fs"
  proof (rule year_stage_total)
    assume "truthyJ (map_of parsed ''year'')"
    then show "\<forall>so \<in> set ?f3. isStr (so ''DateCreated_TransH'')"
      using reach assms(2) by blast
  qed
  then show ?thesis
    by (simp add: filterOrders_def bindE_def f1 whenTruthy_filter gpFilter_def)
qed

lemma filterOrders_customer_throws:
  assumes "\<not> textualJ (map_of parsed ''customer'')"
  shows "filterOrders env xs parsed = Inl TypeError"
proof -
  from assms obtain c where c: "map_of parsed ''customer'' = Some c" "truthyJ (Some c)"
    "\<not> onText c (\<lambda>_. True)"
    by (auto simp: textualJ_def split: option.splits)
  have "customerFilter c xs = Inl TypeError"
    using c(3) by (cases c) (simp_all add: customerFilter_def asStringJ_def bindE_def onText_def)
  then show ?thesis
    using c(2) by (simp add: filterOrders_def whenTruthy_def c(1) bindE_def)
qed

lemma filterOrders_year_throws:
  assumes "truthyJ (map_of parsed ''year'')" and "so \<in> set xs"
    and "reachesYear env parsed so" and "\<not> isStr (so ''DateCreated_TransH'')"
  shows "filterOrders env xs parsed = Inl TypeError"
proof (cases "whenTruthy (map_of parsed ''customer'') customerFilter xs")
  case (Inl e)
  then have "e = TypeError"
    by (rule customer_stage_error)
  then show ?thesis
    using Inl by (simp add: filterOrders_def bindE_def)
next
  case (Inr f1)
  let ?gp = "\<lambda>th so. gpMatch (numberToString env) (propJ th ''operator'') (propJ th ''value'')
      (so ''gpRate'')"
  let ?f3 = "filter (\<lambda>so. constraint (map_of parsed ''date'')
            (\<lambda>d. strict_eqJ (so ''DateCreated_TransH'') d))
          (filter (\<lambda>so. constraint (map_of parsed ''gpThreshold'') (\<lambda>th. ?gp th so)) f1)"
  note 1 = customer_stage[OF Inr]
  have mem: "so \<in> set ?f3"
    using assms(2,3) by (subst 1) (simp add: reachesYear_def)
  obtain y where y: "map_of parsed ''year'' = Some y"
    using assms(1) by (cases "map_of parsed ''year''") auto
  have "filterE (\<lambda>so. bindE (asString (so ''DateCreated_TransH''))
      (\<lambda>d. Inr (startsWith d (toStringJ (numberToString env) y)))) ?f3 = Inl TypeError"
    using mem assms(4) by (rule unguarded_throws) simp
  then show ?thesis
    using assms(1)
    by (simp add: filterOrders_def bindE_def Inr whenTruthy_filter gpFilter_def)
      (simp add: whenTruthy_def y)
qed

lemmas only_defs = noConstraint_def map_of_mapPut whenTruthy_def bindE_def

text \<open>
  C10, as the code has it.  \<^verbatim>\<open>filterOrders\<close> of \<^verbatim>\<open>index.js\<close> raises no exception when
  the customer of the descriptor is a string or falsy, every record carries its
  customer, contract description and memo as strings or falsy values (if a customer is
  supplied), and every record that reaches the year filter carries its date as a string
  (if a year is supplied).  It throws a TypeError when the customer of the descriptor is
  truthy and not a string, whatever the records; and when a year is supplied and one
  record that reaches the year filter does not carry its date as a string.  In
  \<^verbatim>\<open>part_000\<close> a query that supplies only a year throws as soon as one record does not
  carry its date as a string, and in \<^verbatim>\<open>part_001\<close> a query that supplies only a customer,
  a salesRep or a status throws as soon as one record does not carry that field as a
  string.  A query that supplies only a date does not throw in \<^verbatim>\<open>index.js\<close> and
  \<^verbatim>\<open>part_000\<close>: the comparison is \<^verbatim>\<open>===\<close>, and a record without a date is filtered out.
\<close>

theorem filterOrders_exceptions:
  "(textualJ (map_of parsed ''customer'')
      \<and> (\<forall>so \<in> set xs.
            (truthyJ (map_of parsed ''customer'') \<longrightarrow> textual (so ''Name_Cust'')
               \<and> textual (so ''ContractDescription_TransH'') \<and> textual (so ''Memo_TransH''))
            \<and> (truthyJ (map_of parsed ''year'') \<and> reachesYear env parsed so \<longrightarrow>
                 isStr (so ''DateCreated_TransH''))) \<longrightarrow>
      (\<exists>fs. filterOrders env xs parsed = Inr fs))
   \<and> (\<not> textualJ (map_of parsed ''customer'') \<longrightarrow> filterOrders env xs parsed = Inl TypeError)
   \<and> (truthyJ (map_of parsed ''year'') \<and> so \<in> set xs \<and> reachesYear env parsed so
        \<and> \<not> isStr (so ''DateCreated_TransH'') \<longrightarrow>
        filterOrders env xs parsed = Inl TypeError)
   \<and> (truthyJ (Some y) \<and> so \<in> set xs \<and> \<not> isStr (so ''date'') \<longrightarrow>
        filterOrders_p0 env xs (mapPut (noConstraint i) ''year'' y) = Inl TypeError)
   \<and> (truthyJ (Some y) \<and> so \<in> set xs \<and> \<not> isStr (so ''customer'') \<longrightarrow>
        filterOrders_p1 env xs (mapPut (noConstraint i) ''customer'' y) = Inl TypeError)
   \<and> (truthyJ (Some y) \<and> so \<in> set xs \<and> \<not> isStr (so ''salesRep'') \<longrightarrow>
        filterOrders_p1 env xs (mapPut (noConstraint i) ''salesRep'' y) = Inl TypeError)
   \<and> (truthyJ (Some y) \<and> so \<in> set xs \<and> \<not> isStr (so ''status'') \<longrightarrow>
        filterOrders_p1 env xs (mapPut (noConstraint i) ''status'' y) = Inl TypeError)
   \<and> (truthyJ (Some y) \<longrightarrow>
        filterOrders env xs (mapPut (noConstraint i) ''date'' y) =
          Inr (filter (\<lambda>so. strict_eqJ (so ''DateCreated_TransH'') y) xs)
        \<and> filterOrders_p0 env xs (mapPut (noConstraint i) ''date'' y) =
          Inr (filter (\<lambda>so. strict_eqJ (so ''date'') y) xs))"
proof (intro conjI impI)
  assume "textualJ (map_of parsed ''customer'')
      \<and> (\<forall>so \<in> set xs.
            (truthyJ (map_of parsed ''customer'') \<longrightarrow> textual (so ''Name_Cust'')
               \<and> textual (so ''ContractDescription_TransH'') \<and> textual (so ''Memo_TransH''))
            \<and> (truthyJ (map_of parsed ''year'') \<and> reachesYear env parsed so \<longrightarrow>
                 isStr (so ''DateCreated_TransH'')))"
  then show "\<exists>fs. filterOrders env xs parsed = Inr fs"
    using filterOrders_total by blast
next
  assume "\<not> textualJ (map_of parsed ''customer'')"
  then show "filterOrders env xs parsed = Inl TypeError"
    by (rule filterOrders_customer_throws)
next
  assume "truthyJ (map_of parsed ''year'') \<and> so \<in> set xs \<and> reachesYear env parsed so
        \<and> \<not> isStr (so ''DateCreated_TransH'')"
  then show "filterOrders env xs parsed = Inl TypeError"
    using filterOrders_year_throws by blast
next
  assume a: "truthyJ (Some y) \<and> so \<in> set xs \<and> \<not> isStr (so ''date'')"
  then have "filterE (\<lambda>so. bindE (asString (so ''date''))
      (\<lambda>d. Inr (startsWith d (toStringJ (numberToString env) y)))) xs = Inl TypeError"
    by (intro unguarded_throws[of so]) simp_all
  then show "filterOrders_p0 env xs (mapPut (noConstraint i) ''year'' y) = Inl TypeError"
    using a by (simp add: filterOrders_p0_def only_defs)
next
  assume a: "truthyJ (Some y) \<and> so \<in> set xs \<and> \<not> isStr (so ''customer'')"
  then have "filterE (\<lambda>so. bindE (asString (so ''customer''))
      (\<lambda>x. bindE (asStringJ y) (\<lambda>s. Inr (js_includes (toLowerCase x) (toLowerCase s))))) xs
      = Inl TypeError"
    by (intro unguarded_throws[of so]) (simp_all add: text_test_error)
  then show "filterOrders_p1 env xs (mapPut (noConstraint i) ''customer'' y) = Inl TypeError"
    using a by (simp add: filterOrders_p1_def only_defs)
next
  assume a: "truthyJ (Some y) \<and> so \<in> set xs \<and> \<not> isStr (so ''salesRep'')"
  then have "filterE (\<lambda>so. bindE (asString (so ''salesRep''))
      (\<lambda>x. bindE (asStringJ y) (\<lambda>s. Inr (toLowerCase x = toLowerCase s)))) xs = Inl TypeError"
    by (intro unguarded_throws[of so]) (simp_all add: text_test_error)
  then show "filterOrders_p1 env xs (mapPut (noConstraint i) ''salesRep'' y) = Inl TypeError"
    using a by (simp add: filterOrders_p1_def only_defs)
next
  assume a: "truthyJ (Some y) \<and> so \<in> set xs \<and> \<not> isStr (so ''status'')"
  then have "filterE (\<lambda>so. bindE (asString (so ''status''))
      (\<lambda>x. bindE (asStringJ y) (\<lambda>s. Inr (toLowerCase x = toLowerCase s)))) xs = Inl TypeError"
    by (intro unguarded_throws[of so]) (simp_all add: text_test_error)
  then show "filterOrders_p1 env xs (mapPut (noConstraint i) ''status'' y) = Inl TypeError"
    using a by (simp add: filterOrders_p1_def only_defs)
next
  assume a: "truthyJ (Some y)"
  then show "filterOrders env xs (mapPut (noConstraint i) ''date'' y) =
      Inr (filter (\<lambda>so. strict_eqJ (so ''DateCreated_TransH'') y) xs)"
    by (simp add: filterOrders_def only_defs)
  from a show "filterOrders_p0 env xs (mapPut (noConstraint i) ''date'' y) =
      Inr (filter (\<lambda>so. strict_eqJ (so ''date'') y) xs)"
    by (simp add: filterOrders_p0_def only_defs)
qed

theorem filterOrders_exceptions_witness:
  "filterOrders envTable [exampleOrder1, emptyObj]
      (mapPut (noConstraint ''count'') ''year'' (JStr ''2024'')) = Inl TypeError
   \<and> filterOrders envTable [] (mapPut (noConstraint ''count'') ''customer'' (JNum (Fin 7)))
       = Inl TypeError
   \<and> filterOrders_p1 envTable [emptyObj(''customer'' := Null)]
       (mapPut (noConstraint ''count'') ''customer'' (JStr ''acme'')) = Inl TypeError
   \<and> (\<exists>fs. filterOrders envTable [exampleOrder1, exampleOrder2]
         (mapPut (noConstraint ''count'') ''year'' (JStr ''2024'')) = Inr fs)
   \<and> filterOrders_p0 envTable [emptyObj] (mapPut (noConstraint ''count'') ''date'' (JStr ''2024-03-01''))
       = Inr []"
proof -
  have 1: "filterOrders envTable [exampleOrder1, emptyObj]
      (mapPut (noConstraint ''count'') ''year'' (JStr ''2024'')) = Inl TypeError"
    using filterOrders_exceptions[where xs = "[exampleOrder1, emptyObj]" and so = emptyObj
      and parsed = "mapPut (noConstraint ''count'') ''year'' (JStr ''2024'')" and env = envTable]
    by (simp add: isStr_def emptyObj_def reachesYear_def constraint_def noConstraint_def)
  have 2: "filterOrders envTable [] (mapPut (noConstraint ''count'') ''customer'' (JNum (Fin 7)))
       = Inl TypeError"
    using filterOrders_exceptions[where xs = "[]" and env = envTable
      and parsed = "mapPut (noConstraint ''count'') ''customer'' (JNum (Fin 7))"]
    by (simp add: textualJ_def onText_def noConstraint_def)
  have 3: "filterOrders_p1 envTable [emptyObj(''customer'' := Null)]
       (mapPut (noConstraint ''count'') ''customer'' (JStr ''acme'')) = Inl TypeError"
    using filterOrders_exceptions[where xs = "[emptyObj(''customer'' := Null)]"
      and so = "emptyObj(''customer'' := Null)" and y = "JStr ''acme''" and i = "''count''"
      and env = envTable]
    by (simp add: isStr_def)
  have 4: "\<exists>fs. filterOrders envTable [exampleOrder1, exampleOrder2]
         (mapPut (noConstraint ''count'') ''year'' (JStr ''2024'')) = Inr fs"
    using filterOrders_exceptions[where xs = "[exampleOrder1, exampleOrder2]"
      and parsed = "mapPut (noConstraint ''count'') ''year'' (JStr ''2024'')" and env = envTable]
    by (simp add: isStr_def textualJ_def noConstraint_def exampleOrder1_def exampleOrder2_def)
  have 5: "filterOrders_p0 envTable [emptyObj]
      (mapPut (noConstraint ''count'') ''date'' (JStr ''2024-03-01'')) = Inr []"
    using filterOrders_exceptions[where xs = "[emptyObj]" and y = "JStr ''2024-03-01''"
      and i = "''count''" and env = envTable]
    by (simp add: strict_eqJ_def scalarOf_def strict_eq_def emptyObj_def)
  show ?thesis
    by (rule conjI[OF 1 conjI[OF 2 conjI[OF 3 conjI[OF 4 5]]]])
qed

text \<open>
  The claim as stated fails: a record without a date does not make every query that
  supplies a date or a year throw.  With a date constraint the record is filtered out
  by \<^verbatim>\<open>===\<close>; with a year constraint it is never looked at when an earlier filter has
  removed it.
\<close>

theorem filterOrders_absent_date_filtered_out:
  "filterOrders envTable [emptyObj]
      (mapPut (noConstraint ''count'') ''date'' (JStr ''2024-03-01'')) = Inr []
   \<and> filterOrders envTable [emptyObj]
       (mapPut (mapPut (noConstraint ''count'') ''customer'' (JStr ''acme''))
          ''year'' (JStr ''2024'')) = Inr []
   \<and> filterOrders_p0 envTable [emptyObj]
       (mapPut (noConstraint ''count'') ''date'' (JStr ''2024-03-01'')) = Inr []"
  by (simp add: filterOrders_def filterOrders_p0_def engine_defs)

subsection \<open>Sorting with a comparator\<close>

lemma insertBy_insort_key:
  assumes "(cmp x y < 0) = (keyf x < keyf y)"
    and "\<forall>z \<in> set zs. (cmp x z < 0) = (keyf x < keyf z)"
  shows "insort_key keyf y (insertBy cmp x zs) = insertBy cmp x (insort_key keyf y zs)"
  using assms by (induction zs) auto

lemma sort_key_snoc:
  assumes "\<forall>z \<in> set xs. (cmp x z < 0) = (keyf x < keyf z)"
  shows "sort_key keyf (xs @ [x]) = insertBy cmp x (sort_key keyf xs)"
  using assms
proof (induction xs)
  case Nil
  then show ?case by simp
next
  case (Cons y ys)
  have "sort_key keyf ((y # ys) @ [x]) = insort_key keyf y (insertBy cmp x (sort_key keyf ys))"
    using Cons by simp
  also have "\<dots> = insertBy cmp x (insort_key keyf y (sort_key keyf ys))"
    using Cons.prems by (intro insertBy_insort_key) auto
  finally show ?case
    by simp
qed

lemma js_sort_sort_key:
  assumes "\<forall>x \<in> set xs. \<forall>y \<in> set xs. (cmp x y < 0) = (keyf x < keyf y)"
  shows "js_sort cmp xs = sort_key keyf xs"
  using assms
proof (induction xs rule: rev_induct)
  case Nil
  then show ?case by (simp add: js_sort_def)
next
  case (snoc x xs)
  have "js_sort cmp (xs @ [x]) = insertBy cmp x (js_sort cmp xs)"
    by (simp add: js_sort_def)
  also have "js_sort cmp xs = sort_key keyf xs"
    using snoc by simp
  also have "insertBy cmp x (sort_key keyf xs) = sort_key keyf (xs @ [x])"
    using snoc.prems by (intro sort_key_snoc[symmetric]) simp
  finally show ?case .
qed

lemma byAmountDesc_fin:
  assumes "isFin (snd a)" and "isFin (snd b)"
  shows "(byAmountDesc a b < 0) = (- finOf (snd a) < - finOf (snd b))"
  using assms
  by (auto simp: byAmountDesc_def isFin_def finOf_def split: jsval.splits jsnum.splits)

lemma length_insertBy: "length (insertBy cmp x ys) = Suc (length ys)"
  by (induction ys) simp_all

lemma length_js_sort: "length (js_sort cmp xs) = length xs"
  by (induction xs rule: rev_induct) (simp_all add: js_sort_def length_insertBy)

lemma length_entries: "length (entries m) = length m"
  by (simp add: entries_def sum_length_filter_compl)

lemma set_entries: "set (entries m) = set m"
  by (auto simp: entries_def)

lemma entries_plain:
  assumes "\<forall>kv \<in> set m. \<not> arrayIndex (fst kv)"
  shows "entries m = m"
proof -
  have "filter (\<lambda>kv. arrayIndex (fst kv)) m = []"
    using assms by (auto simp: filter_empty_conv)
  moreover have "filter (\<lambda>kv. \<not> arrayIndex (fst kv)) m = m"
    using assms by (auto simp: filter_id_conv)
  ultimately show ?thesis
    by (simp add: entries_def)
qed

lemma sliceEnd_le: "sliceEnd n len \<le> len"
proof (cases n)
  case (Fin q)
  define k where "k = (if q < 0 then \<lceil>q\<rceil> else \<lfloor>q\<rfloor>)"
  have "sliceEnd n len = (if k < 0 then nat (int len + k) else min (nat k) len)"
    unfolding Fin sliceEnd_def k_def by (simp add: Let_def)
  then show ?thesis
    by auto
qed (simp_all add: sliceEnd_def)

lemma sliceEnd_whole: "0 < n \<Longrightarrow> sliceEnd (Fin (of_nat n)) len = min n len"
  by (simp add: sliceEnd_def)

subsection \<open>Grouping\<close>

lemma mapPut_map_in:
  "k \<in> set ks \<Longrightarrow> distinct ks \<Longrightarrow>
     mapPut (map (\<lambda>j. (j, f j)) ks) k v = map (\<lambda>j. (j, if j = k then v else f j)) ks"
  by (induction ks) auto

lemma mapPut_map_notin:
  "k \<notin> set ks \<Longrightarrow> mapPut (map (\<lambda>j. (j, f j)) ks) k v = map (\<lambda>j. (j, f j)) ks @ [(k, v)]"
  by (induction ks) auto

lemma mapGet_map:
  "mapGet env (map (\<lambda>j. (j, f j)) ks) k =
     (if k \<in> set ks then f k
      else (case protoText env k of Some t \<Rightarrow> Str t | None \<Rightarrow> Undefined))"
  by (simp add: mapGet_def map_of_map_restrict restrict_map_def)

lemma firstSeen_snoc:
  "firstSeen (ks @ [k]) = (if k \<in> set ks then firstSeen ks else firstSeen ks @ [k])"
  by (simp add: firstSeen_def)

lemma set_firstSeen [simp]: "set (firstSeen ks) = set ks"
  by (simp add: firstSeen_def)

lemma distinct_firstSeen [simp]: "distinct (firstSeen ks)"
  by (simp add: firstSeen_def)

lemma length_firstSeen: "length (firstSeen ks) = card (set ks)"
  by (simp add: firstSeen_def length_remdups_card_conv)

lemma numSum_snoc: "numSum env (ns @ [n]) = num_add (roundNum env) (numSum env ns) n"
  by (simp add: numSum_def)

lemma numSum_finite_amounts:
  assumes "\<forall>so \<in> set xs. isFin (so ''amount'')" and "\<forall>q. roundNum env q \<noteq> NaN"
  shows "numSum env (map (\<lambda>so. toNumber (so ''amount'')) xs) \<noteq> NaN"
  using assms(1)
proof (induction xs rule: rev_induct)
  case Nil
  then show ?case by (simp add: numSum_def)
next
  case (snoc x xs)
  then obtain a where a: "x ''amount'' = Num (Fin a)"
    by (auto simp: isFin_def split: jsval.splits jsnum.splits)
  have "numSum env (map (\<lambda>so. toNumber (so ''amount'')) xs) \<noteq> NaN"
    using snoc by simp
  then show ?case
    using assms(2)
    by (cases "numSum env (map (\<lambda>so. toNumber (so ''amount'')) xs)")
      (simp_all add: numSum_snoc a)
qed

lemma groupTotal_not_NaN:
  assumes "\<forall>so \<in> set xs. isFin (so ''amount'')" and "\<forall>q. roundNum env q \<noteq> NaN"
  shows "groupTotal env key k xs \<noteq> NaN"
  unfolding groupTotal_def groupOf_def
  using assms by (intro numSum_finite_amounts) auto

lemma groupTotal_snoc:
  "groupTotal env key k (xs @ [x]) =
     (if groupKey env key x = k
      then num_add (roundNum env) (groupTotal env key k xs) (toNumber (x ''amount''))
      else groupTotal env key k xs)"
  by (simp add: groupTotal_def groupOf_def numSum_snoc)

lemma groupTotal_absent:
  "k \<notin> groupKey env key ` set xs \<Longrightarrow> groupTotal env key k xs = Fin 0"
proof -
  assume "k \<notin> groupKey env key ` set xs"
  then have "filter (\<lambda>so. groupKey env key so = k) xs = []"
    by (auto simp: filter_empty_conv)
  then show ?thesis
    by (simp add: groupTotal_def groupOf_def numSum_def)
qed

lemma js_or_num: "t \<noteq> NaN \<Longrightarrow> js_or (Num t) (Num (Fin 0)) = Num t"
  by (cases t) (auto simp: js_or_def)

lemma groupSums_snoc:
  "groupSums env key (xs @ [x]) =
     addTo env (groupSums env key xs) (groupKey env key x) (x ''amount'')"
  by (simp add: groupSums_def groupKey_def)

lemma groupSums_eq:
  assumes "\<forall>so \<in> set xs. isFin (so ''amount'') \<and> \<not> inherited env (groupKey env key so)"
    and "\<forall>q. roundNum env q \<noteq> NaN"
  shows "groupSums env key xs =
    map (\<lambda>k. (k, Num (groupTotal env key k xs))) (firstSeen (map (groupKey env key) xs))"
  using assms(1)
proof (induction xs rule: rev_induct)
  case Nil
  then show ?case
    by (simp add: groupSums_def firstSeen_def)
next
  case (snoc x xs)
  let ?ks = "firstSeen (map (groupKey env key) xs)"
  let ?k = "groupKey env key x"
  obtain a where a: "x ''amount'' = Num (Fin a)"
    using snoc.prems by (auto simp: isFin_def split: jsval.splits jsnum.splits)
  have proto: "protoText env ?k = None" and notproto: "?k \<noteq> ''__proto__''"
    using snoc.prems by (auto simp: inherited_def)
  have IH: "groupSums env key xs = map (\<lambda>k. (k, Num (groupTotal env key k xs))) ?ks"
    using snoc by simp
  have fin: "groupTotal env key ?k xs \<noteq> NaN"
    using snoc.prems assms(2) by (intro groupTotal_not_NaN) auto
  show ?case
  proof (cases "?k \<in> set ?ks")
    case True
    have "groupSums env key (xs @ [x]) =
        map (\<lambda>j. (j, if j = ?k
                      then Num (num_add (roundNum env) (groupTotal env key ?k xs) (Fin a))
                      else Num (groupTotal env key j xs))) ?ks"
      using True
      by (simp add: groupSums_snoc IH addTo_def mapSet_def notproto mapGet_map mapPut_map_in
          a js_or_num[OF fin] js_plus_def)
    also have "\<dots> = map (\<lambda>k. (k, Num (groupTotal env key k (xs @ [x])))) ?ks"
      by (auto simp: groupTotal_snoc a)
    finally show ?thesis
      using True by (simp add: firstSeen_snoc)
  next
    case False
    then have zero: "groupTotal env key ?k xs = Fin 0"
      by (intro groupTotal_absent) simp
    have others: "groupTotal env key k (xs @ [x]) = groupTotal env key k xs" if "k \<in> set ?ks" for k
      using that False by (auto simp: groupTotal_snoc)
    have "groupSums env key (xs @ [x]) =
        map (\<lambda>k. (k, Num (groupTotal env key k xs))) ?ks
          @ [(?k, Num (num_add (roundNum env) (Fin 0) (Fin a)))]"
      using False
      by (simp add: groupSums_snoc IH addTo_def mapSet_def notproto mapGet_map mapPut_map_notin
          proto a js_or_def js_plus_def)
    also have "\<dots> = map (\<lambda>k. (k, Num (groupTotal env key k (xs @ [x])))) (?ks @ [?k])"
      using others by (simp add: groupTotal_snoc zero a)
    finally show ?thesis
      using False by (simp add: firstSeen_snoc)
  qed
qed

subsection \<open>Ranked groups\<close>

lemma topLines_nth:
  assumes "i < length (topGroups env key parsed xs)"
  shows "topLines env key label parsed xs ! i =
    ''Top '' @ showNat (i + 1) @ '' '' @ label @ '': '' @ fst (topGroups env key parsed xs ! i)
      @ '' - Total Amount: '' @ formatPeso env (toNumber (snd (topGroups env key parsed xs ! i)))"
  using assms by (simp add: topLines_def nth_enumerate_eq split: prod.splits)

lemma topCount_whole:
  assumes "0 < n" and "map_of parsed ''topN'' = Some (JNum (Fin (of_nat n)))"
  shows "topCount env parsed len = min n len"
  using assms
  by (simp add: topCount_def orElse_def toPrimitive_def scalarOf_def sliceEnd_whole)

lemma topCount_default:
  assumes "\<not> truthyJ (map_of parsed ''topN'')"
  shows "topCount env parsed len = min 1 len"
proof -
  have "orElse (map_of parsed ''topN'') (JNum (Fin 1)) = JNum (Fin 1)"
    using assms by (auto simp: orElse_def split: option.splits)
  then show ?thesis
    using sliceEnd_whole[of 1 len] by (simp add: topCount_def toPrimitive_def scalarOf_def)
qed

text \<open>
  C6, as the code has it.  For records with finite amounts whose group names are not
  inherited names, when no total is out of the range of binary64: the map of the groups
  holds, in the order in which the names were first met, each name with the total of
  the amounts of its records; \<^verbatim>\<open>Object.entries\<close> lists the groups whose names are array
  indices first, in ascending numeric order, and then the others in the order in which
  they were first met, which is the order of all groups when no name is an array index;
  the ranking is the stable sort of that list by descending total, so that groups with
  equal totals stay in the order of the list; the first \<^verbatim>\<open>topN\<close> of them are rendered (as
  \<^verbatim>\<open>slice\<close> counts them: \<open>n\<close> of them for a positive whole number \<open>n\<close>, one when \<^verbatim>\<open>topN\<close> is
  absent or falsy, and never more than there are groups), one line each, the line of
  index \<open>i\<close> carrying the rank \<open>i + 1\<close>.  The three intents of \<^verbatim>\<open>index.js\<close> and of
  \<^verbatim>\<open>part_001\<close> group by customer, division and salesRep.
\<close>

theorem top_groups_ranked:
  assumes "\<forall>so \<in> set xs. isFin (so ''amount'') \<and> \<not> inherited env (groupKey env key so)"
    and "\<forall>q. roundNum env q \<noteq> NaN"
    and "\<forall>so \<in> set xs. \<exists>q. groupTotal env key (groupKey env key so) xs = Fin q"
  shows "groupSums env key xs =
      map (\<lambda>k. (k, Num (groupTotal env key k xs))) (firstSeen (map (groupKey env key) xs))
    \<and> entries (groupSums env key xs) =
        sort_key (\<lambda>g. indexOf (fst g)) (filter (\<lambda>g. arrayIndex (fst g)) (groupSums env key xs))
        @ filter (\<lambda>g. \<not> arrayIndex (fst g)) (groupSums env key xs)
    \<and> ((\<forall>so \<in> set xs. \<not> arrayIndex (groupKey env key so)) \<longrightarrow>
        entries (groupSums env key xs) = groupSums env key xs)
    \<and> js_sort byAmountDesc (entries (groupSums env key xs)) =
        sort_key (\<lambda>g. - finOf (snd g)) (entries (groupSums env key xs))
    \<and> sorted (map (\<lambda>g. - finOf (snd g)) (topGroups env key parsed xs))
    \<and> (\<forall>v. filter (\<lambda>g. finOf (snd g) = v) (js_sort byAmountDesc (entries (groupSums env key xs)))
           = filter (\<lambda>g. finOf (snd g) = v) (entries (groupSums env key xs)))
    \<and> topGroups env key parsed xs =
        take (topCount env parsed (card (groupKey env key ` set xs)))
          (js_sort byAmountDesc (entries (groupSums env key xs)))
    \<and> length (topLines env key label parsed xs) =
        topCount env parsed (card (groupKey env key ` set xs))
    \<and> topCount env parsed (card (groupKey env key ` set xs)) \<le> card (groupKey env key ` set xs)
    \<and> (\<forall>n>0. map_of parsed ''topN'' = Some (JNum (Fin (of_nat n))) \<longrightarrow>
          length (topLines env key label parsed xs) = min n (card (groupKey env key ` set xs)))
    \<and> (\<not> truthyJ (map_of parsed ''topN'') \<longrightarrow>
          length (topLines env key label parsed xs) = min 1 (card (groupKey env key ` set xs)))
    \<and> (\<forall>i < length (topLines env key label parsed xs).
          topLines env key label parsed xs ! i =
            ''Top '' @ showNat (i + 1) @ '' '' @ label @ '': ''
              @ fst (topGroups env key parsed xs ! i) @ '' - Total Amount: ''
              @ formatPeso env (toNumber (snd (topGroups env key parsed xs ! i))))
    \<and> (intentIs parsed ''topCustomers'' \<longrightarrow>
          formatResponse_intents env parsed question xs =
            Inr (Reply (join newline (topLines env ''Name_Cust'' ''Customer'' parsed xs))))
    \<and> (intentIs parsed ''topDivision'' \<longrightarrow>
          formatResponse_intents env parsed question xs =
            Inr (Reply (join newline (topLines env ''division'' ''Division'' parsed xs))))
    \<and> (intentIs parsed ''topSales'' \<longrightarrow>
          formatResponse_intents env parsed question xs =
            Inr (Reply (join newline (topLines env ''salesRep'' ''Sales Personnel'' parsed xs))))
    \<and> (xs \<noteq> [] \<longrightarrow>
        (intentIs parsed ''topCustomers'' \<longrightarrow>
          formatResponse_p1 env xs parsed question =
            Inr (Reply (join newline (topLines env ''customer'' ''Customer'' parsed xs))))
        \<and> (intentIs parsed ''topDivision'' \<longrightarrow>
          formatResponse_p1 env xs parsed question =
            Inr (Reply (join newline (topLines env ''division'' ''Division'' parsed xs))))
        \<and> (intentIs parsed ''topSales'' \<longrightarrow>
          formatResponse_p1 env xs parsed question =
            Inr (Reply (join newline (topLines env ''salesRep'' ''Sales Personnel'' parsed xs)))))"
proof -
  let ?G = "groupSums env key xs"
  let ?f = "\<lambda>g :: string \<times> jsval. - finOf (snd g)"
  let ?n = "card (groupKey env key ` set xs)"
  have eq: "?G =
      map (\<lambda>k. (k, Num (groupTotal env key k xs))) (firstSeen (map (groupKey env key) xs))"
    using assms(1,2) by (rule groupSums_eq)
  have ent: "entries ?G =
        sort_key (\<lambda>g. indexOf (fst g)) (filter (\<lambda>g. arrayIndex (fst g)) ?G)
        @ filter (\<lambda>g. \<not> arrayIndex (fst g)) ?G"
    by (simp add: entries_def)
  have plain: "(\<forall>so \<in> set xs. \<not> arrayIndex (groupKey env key so)) \<longrightarrow> entries ?G = ?G"
  proof
    assume "\<forall>so \<in> set xs. \<not> arrayIndex (groupKey env key so)"
    then have "\<forall>kv \<in> set ?G. \<not> arrayIndex (fst kv)"
      by (subst eq) auto
    then show "entries ?G = ?G"
      by (rule entries_plain)
  qed
  have fin: "\<forall>kv \<in> set ?G. isFin (snd kv)"
    using assms(3) by (subst eq) (auto simp: isFin_def)
  have sorted_eq: "js_sort byAmountDesc (entries ?G) = sort_key ?f (entries ?G)"
    using fin by (intro js_sort_sort_key) (simp add: byAmountDesc_fin set_entries)
  have "length ?G = ?n"
    by (subst eq) (simp add: length_firstSeen)
  then have len_sorted: "length (js_sort byAmountDesc (entries ?G)) = ?n"
    by (simp add: length_js_sort length_entries)
  have top: "topGroups env key parsed xs =
      take (topCount env parsed ?n) (js_sort byAmountDesc (entries ?G))"
    by (simp add: topGroups_def Let_def len_sorted)
  have desc: "sorted (map ?f (topGroups env key parsed xs))"
    unfolding top sorted_eq take_map[symmetric] by (intro sorted_wrt_take) simp
  have stable: "\<forall>v. filter (\<lambda>g. finOf (snd g) = v) (js_sort byAmountDesc (entries ?G))
      = filter (\<lambda>g. finOf (snd g) = v) (entries ?G)"
  proof
    fix v
    show "filter (\<lambda>g. finOf (snd g) = v) (js_sort byAmountDesc (entries ?G))
      = filter (\<lambda>g. finOf (snd g) = v) (entries ?G)"
      using sort_key_stable[of ?f "- v" "entries ?G"] by (simp add: sorted_eq)
  qed
  have le: "topCount env parsed ?n \<le> ?n"
    by (simp add: topCount_def sliceEnd_le)
  have len: "length (topLines env key label parsed xs) = topCount env parsed ?n"
    using le by (simp add: topLines_def top len_sorted)
  have whole: "\<forall>n>0. map_of parsed ''topN'' = Some (JNum (Fin (of_nat n))) \<longrightarrow>
      length (topLines env key label parsed xs) = min n ?n"
    using topCount_whole by (simp add: len)
  have dflt: "\<not> truthyJ (map_of parsed ''topN'') \<longrightarrow>
      length (topLines env key label parsed xs) = min 1 ?n"
    using topCount_default by (simp add: len)
  have lines: "\<forall>i < length (topLines env key label parsed xs).
      topLines env key label parsed xs ! i =
        ''Top '' @ showNat (i + 1) @ '' '' @ label @ '': ''
          @ fst (topGroups env key parsed xs ! i) @ '' - Total Amount: ''
          @ formatPeso env (toNumber (snd (topGroups env key parsed xs ! i)))"
    using topLines_nth by (simp add: topLines_def)
  have i1: "intentIs parsed ''topCustomers'' \<longrightarrow>
          formatResponse_intents env parsed question xs =
            Inr (Reply (join newline (topLines env ''Name_Cust'' ''Customer'' parsed xs)))"
    by (simp add: formatResponse_intents_def intentIs_def)
  have i2: "intentIs parsed ''topDivision'' \<longrightarrow>
          formatResponse_intents env parsed question xs =
            Inr (Reply (join newline (topLines env ''division'' ''Division'' parsed xs)))"
    by (simp add: formatResponse_intents_def intentIs_def)
  have i3: "intentIs parsed ''topSales'' \<longrightarrow>
          formatResponse_intents env parsed question xs =
            Inr (Reply (join newline (topLines env ''salesRep'' ''Sales Personnel'' parsed xs)))"
    by (simp add: formatResponse_intents_def intentIs_def)
  have p1: "xs \<noteq> [] \<longrightarrow>
        (intentIs parsed ''topCustomers'' \<longrightarrow>
          formatResponse_p1 env xs parsed question =
            Inr (Reply (join newline (topLines env ''customer'' ''Customer'' parsed xs))))
        \<and> (intentIs parsed ''topDivision'' \<longrightarrow>
          formatResponse_p1 env xs parsed question =
            Inr (Reply (join newline (topLines env ''division'' ''Division'' parsed xs))))
        \<and> (intentIs parsed ''topSales'' \<longrightarrow>
          formatResponse_p1 env xs parsed question =
            Inr (Reply (join newline (topLines env ''salesRep'' ''Sales Personnel'' parsed xs))))"
    by (simp add: formatResponse_p1_def intentIs_def)
  show ?thesis
    by (rule conjI[OF eq conjI[OF ent conjI[OF plain conjI[OF sorted_eq conjI[OF desc
        conjI[OF stable conjI[OF top conjI[OF len conjI[OF le conjI[OF whole conjI[OF dflt
        conjI[OF lines conjI[OF i1 conjI[OF i2 conjI[OF i3 p1]]]]]]]]]]]]]]])
qed

lemmas group_defs =
  topLines_def topGroups_def topCount_def sliceEnd_def orElse_def groupSums_def addTo_def
  mapSet_def mapGet_def entries_def indexOf_def arrayIndex_def isDigit_def digitVal_def
  digitsVal_def js_sort_def byAmountDesc_def join_def groupKey_def

theorem top_groups_ranked_witness:
  "formatResponse envTable [exampleOrder1, exampleOrder2]
      (mapPut (noConstraint ''topCustomers'') ''topN'' (JNum (Fin 1))) ''top customer'' =
     Inr (Reply ''Top 1 Customer: Acme - Total Amount: 1500'')
   \<and> groupSums envTable ''Name_Cust'' [exampleOrder1, exampleOrder2] = [(''Acme'', Num (Fin 1500))]
   \<and> length (topLines envTable ''Name_Cust'' ''Customer''
        (mapPut (noConstraint ''topCustomers'') ''topN'' (JNum (Fin 1)))
        [exampleOrder1, exampleOrder2]) = 1"
proof -
  let ?xs = "[exampleOrder1, exampleOrder2]"
  let ?parsed = "mapPut (noConstraint ''topCustomers'') ''topN'' (JNum (Fin 1))"
  have h1: "\<forall>so \<in> set ?xs.
      isFin (so ''amount'') \<and> \<not> inherited envTable (groupKey envTable ''Name_Cust'' so)"
    by (simp add: engine_defs groupKey_def isFin_def inherited_def)
  have h2: "\<forall>q. roundNum envTable q \<noteq> NaN"
    by (simp add: envTable_def)
  have h3: "\<forall>so \<in> set ?xs.
      \<exists>q. groupTotal envTable ''Name_Cust'' (groupKey envTable ''Name_Cust'' so) ?xs = Fin q"
    by (simp add: engine_defs groupKey_def groupTotal_def groupOf_def numSum_def)
  note ranked = top_groups_ranked[OF h1 h2 h3, of ?parsed "''Customer''" "''top customer''"]
  have sums: "groupSums envTable ''Name_Cust'' ?xs =
      map (\<lambda>k. (k, Num (groupTotal envTable ''Name_Cust'' k ?xs)))
        (firstSeen (map (groupKey envTable ''Name_Cust'') ?xs))"
    using ranked by blast
  have sums': "groupSums envTable ''Name_Cust'' ?xs = [(''Acme'', Num (Fin 1500))]"
    unfolding sums
    by (simp add: engine_defs groupKey_def groupTotal_def groupOf_def numSum_def firstSeen_def)
  have "length (topLines envTable ''Name_Cust'' ''Customer'' ?parsed ?xs) =
      topCount envTable ?parsed (card (groupKey envTable ''Name_Cust'' ` set ?xs))"
    using ranked by blast
  then have len: "length (topLines envTable ''Name_Cust'' ''Customer'' ?parsed ?xs) = 1"
    by (simp add: engine_defs group_defs)
  have run: "formatResponse envTable ?xs ?parsed ''top customer'' =
     Inr (Reply ''Top 1 Customer: Acme - Total Amount: 1500'')"
    by (simp add: engine_defs group_defs)
  show ?thesis
    by (rule conjI[OF run conjI[OF sums' len]])
qed

text \<open>
  The claim as stated fails for group names that are array indices: \<^verbatim>\<open>Object.entries\<close>
  lists them first, in numeric order, whatever the order in which they were met.  The
  customers \<^verbatim>\<open>10\<close> and \<^verbatim>\<open>2\<close>, met in this order with equal sums, are ranked \<^verbatim>\<open>2\<close> first.
\<close>

theorem top_groups_numeric_names:
  "map fst (groupSums envTable ''Name_Cust''
      [emptyObj(''Name_Cust'' := Str ''10'', ''amount'' := Num (Fin 100)),
       emptyObj(''Name_Cust'' := Str ''2'', ''amount'' := Num (Fin 100))]) = [''10'', ''2'']
   \<and> map fst (topGroups envTable ''Name_Cust'' (noConstraint ''topCustomers'')
      [emptyObj(''Name_Cust'' := Str ''10'', ''amount'' := Num (Fin 100)),
       emptyObj(''Name_Cust'' := Str ''2'', ''amount'' := Num (Fin 100))]) = [''2'']
   \<and> formatResponse envTable
      [emptyObj(''Name_Cust'' := Str ''10'', ''amount'' := Num (Fin 100)),
       emptyObj(''Name_Cust'' := Str ''2'', ''amount'' := Num (Fin 100))]
      (noConstraint ''topCustomers'') ''top customer'' =
     Inr (Reply ''Top 1 Customer: 2 - Total Amount: 100'')"
  by (simp add: engine_defs group_defs)

subsection \<open>Monthly totals\<close>

lemma monthlyStep_Inr:
  assumes "monthlyStep env dateKey statusKey rep m0 so = Inr m1"
  shows "m1 = (if countsMonthly dateKey statusKey rep so
               then addTo env m0 (monthOf dateKey so) (so ''amount'') else m0)"
  using assms
  by (auto simp: monthlyStep_def countsMonthly_def monthOf_def bindE_def asString_def
      asStringJ_def onText_def split: if_splits jsval.splits json.splits)

lemma foldE_monthlyStep:
  assumes "foldE (monthlyStep env dateKey statusKey rep) m0 xs = Inr m"
  shows "m = foldl (\<lambda>acc so. addTo env acc (monthOf dateKey so) (so ''amount'')) m0
               (filter (countsMonthly dateKey statusKey rep) xs)"
  using assms
proof (induction xs arbitrary: m0)
  case Nil
  then show ?case by simp
next
  case (Cons x xs)
  from Cons.prems obtain m1 where m1: "monthlyStep env dateKey statusKey rep m0 x = Inr m1"
    and rest: "foldE (monthlyStep env dateKey statusKey rep) m1 xs = Inr m"
    by (auto split: sum.splits)
  show ?case
    using Cons.IH[OF rest] monthlyStep_Inr[OF m1] by simp
qed

lemma monthlySorted_sorted:
  assumes "\<forall>a \<in> fst ` set m. \<forall>b \<in> fst ` set m. (localeCompare env a b < 0) = (a < b)"
  shows "monthlySorted env m = sort_key fst (entries m)"
  unfolding monthlySorted_def
  using assms by (intro js_sort_sort_key) (auto simp: set_entries)

lemma foldl_join_nonempty: "acc \<noteq> [] \<Longrightarrow> foldl (\<lambda>acc y. acc @ sep @ y) acc ys \<noteq> []"
  by (induction ys arbitrary: acc) simp_all

lemma monthly_text_nonempty:
  assumes "m \<noteq> []"
  shows "join newline (map (\<lambda>(month, amt). month @ '': '' @ formatPeso env (toNumber amt))
    (monthlySorted env m)) \<noteq> []"
proof -
  have "length (monthlySorted env m) = length m"
    by (simp add: monthlySorted_def length_js_sort length_entries)
  then obtain kv rest where "monthlySorted env m = kv # rest"
    using assms by (cases "monthlySorted env m") auto
  then show ?thesis
    by (simp add: join_def foldl_join_nonempty split: prod.splits)
qed

lemma monthlyReply_nonempty: "monthlyReply env rep yr m \<noteq> []"
  by (simp add: monthlyReply_def Let_def)

lemma monthlyReply_empty:
  "monthlyReply env rep yr [] = ''No valid sales orders found for '' @ rep @ '' in '' @ yr"
  by (simp add: monthlyReply_def monthlySorted_def entries_def js_sort_def join_def)

lemma monthlyReply_lines:
  "monthlyReply env rep yr m =
     (if join newline (map (\<lambda>(month, amt). month @ '': '' @ formatPeso env (toNumber amt))
           (monthlySorted env m)) = []
      then ''No valid sales orders found for '' @ rep @ '' in '' @ yr
      else join newline (map (\<lambda>(month, amt). month @ '': '' @ formatPeso env (toNumber amt))
           (monthlySorted env m)))"
  by (simp add: monthlyReply_def Let_def)

lemma monthlyTotals_nonempty: "monthlyTotals env dateKey statusKey rep yr xs \<noteq> Inr (Reply [])"
  by (cases "monthlyMapOf env dateKey statusKey rep xs")
    (simp_all add: monthlyTotals_def bindE_def monthlyReply_nonempty)

lemma formatResponse_p1_nonempty:
  assumes "intentIs parsed ''monthlyTotals''"
  shows "formatResponse_p1 env incoming parsed question \<noteq> Inr (Reply [])"
  using assms monthlyTotals_nonempty
  by (simp add: formatResponse_p1_def intentIs_def)

lemma formatResponse_nonempty:
  assumes "intentIs parsed ''monthlyTotals''"
  shows "formatResponse env incoming parsed question \<noteq> Inr (Reply [])"
proof (cases "incoming = []")
  case True
  then show ?thesis
    using assms by (simp add: formatResponse_def intentIs_def)
next
  case False
  show ?thesis
  proof (cases "formatResponse_filters env parsed question incoming")
    case (Inl e)
    then show ?thesis
      using assms False by (simp add: formatResponse_def intentIs_def bindE_def)
  next
    case (Inr filtered)
    have "formatResponse_intents env parsed question filtered \<noteq> Inr (Reply [])"
      using assms monthlyTotals_nonempty by (simp add: formatResponse_intents_def intentIs_def)
    then show ?thesis
      using assms False Inr by (simp add: formatResponse_def intentIs_def bindE_def)
  qed
qed

text \<open>
  C7, as the code has it.  For the \<^verbatim>\<open>monthlyTotals\<close> intent, no variant answers with
  the empty string.  Given no record, \<^verbatim>\<open>index.js\<close> and \<^verbatim>\<open>part_001\<close> answer with their
  texts for an empty set.  When the year or the salesRep is absent or falsy,
  \<^verbatim>\<open>part_001\<close>, given records, answers with a fixed text.  When both are present and no
  exception is raised: the monthly map is the grouping, by the first seven characters
  of the date, of exactly the records with a date, a status of the allow-list and the
  wanted salesRep up to case; the answer is the no-data text when the map is empty; and
  where \<^verbatim>\<open>localeCompare\<close> agrees with the order of strings on the months, the lines are
  those of the months in ascending order.
\<close>

theorem monthlyTotals_routing:
  assumes "intentIs parsed ''monthlyTotals''"
  shows "formatResponse env incoming parsed question \<noteq> Inr (Reply [])
    \<and> formatResponse_p1 env incoming parsed question \<noteq> Inr (Reply [])
    \<and> formatResponse env [] parsed question =
        Inr (Reply ''There are 0 sales orders matching your query.'')
    \<and> formatResponse_p1 env [] parsed question = Inr (Reply ''No matching sales orders.'')
    \<and> (\<not> (truthyJ (map_of parsed ''year'') \<and> truthyJ (map_of parsed ''salesRep''))
          \<and> incoming \<noteq> [] \<longrightarrow>
        formatResponse_p1 env incoming parsed question =
          Inr (Reply ''Intent not implemented yet.''))
    \<and> (truthyJ (map_of parsed ''year'') \<and> truthyJ (map_of parsed ''salesRep'')
        \<and> monthlyMapOf env dateKey statusKey (fieldOf parsed ''salesRep'') filtered = Inr m \<longrightarrow>
        monthlyTotals env dateKey statusKey (fieldOf parsed ''salesRep'')
            (fieldOf parsed ''year'') filtered =
          Inr (Reply (monthlyReply env
            (toStringJ (numberToString env) (fieldOf parsed ''salesRep''))
            (toStringJ (numberToString env) (fieldOf parsed ''year'')) m))
        \<and> formatResponse_intents env parsed question filtered =
            monthlyTotals env ''date'' ''Status_TransH'' (fieldOf parsed ''salesRep'')
              (fieldOf parsed ''year'') filtered
        \<and> (incoming \<noteq> [] \<longrightarrow> formatResponse_p1 env incoming parsed question =
            monthlyTotals env ''date_created'' ''status'' (fieldOf parsed ''salesRep'')
              (fieldOf parsed ''year'') incoming)
        \<and> m = foldl (\<lambda>acc so. addTo env acc (monthOf dateKey so) (so ''amount'')) []
                (filter (countsMonthly dateKey statusKey (fieldOf parsed ''salesRep'')) filtered)
        \<and> (m = [] \<longrightarrow>
             monthlyReply env (toStringJ (numberToString env) (fieldOf parsed ''salesRep''))
                 (toStringJ (numberToString env) (fieldOf parsed ''year'')) m =
               ''No valid sales orders found for ''
                 @ toStringJ (numberToString env) (fieldOf parsed ''salesRep'') @ '' in ''
                 @ toStringJ (numberToString env) (fieldOf parsed ''year''))
        \<and> (m \<noteq> [] \<longrightarrow>
             monthlyReply env (toStringJ (numberToString env) (fieldOf parsed ''salesRep''))
                 (toStringJ (numberToString env) (fieldOf parsed ''year'')) m =
               join newline (map (\<lambda>(month, amt). month @ '': '' @ formatPeso env (toNumber amt))
                 (monthlySorted env m)))
        \<and> ((\<forall>a \<in> fst ` set m. \<forall>b \<in> fst ` set m. (localeCompare env a b < 0) = (a < b)) \<longrightarrow>
             sorted (map fst (monthlySorted env m)) \<and> set (monthlySorted env m) = set m))"
proof -
  let ?rep = "fieldOf parsed ''salesRep''"
  let ?yr = "fieldOf parsed ''year''"
  let ?reps = "toStringJ (numberToString env) ?rep"
  let ?yrs = "toStringJ (numberToString env) ?yr"
  have never: "formatResponse env incoming parsed question \<noteq> Inr (Reply [])"
    using assms by (rule formatResponse_nonempty)
  have never1: "formatResponse_p1 env incoming parsed question \<noteq> Inr (Reply [])"
    using assms by (rule formatResponse_p1_nonempty)
  have none: "formatResponse env [] parsed question =
      Inr (Reply ''There are 0 sales orders matching your query.'')"
    using assms by (simp add: formatResponse_def intentIs_def)
  have none1: "formatResponse_p1 env [] parsed question = Inr (Reply ''No matching sales orders.'')"
    using assms by (simp add: formatResponse_p1_def intentIs_def)
  have absent: "\<not> (truthyJ (map_of parsed ''year'') \<and> truthyJ (map_of parsed ''salesRep''))
          \<and> incoming \<noteq> [] \<longrightarrow>
        formatResponse_p1 env incoming parsed question =
          Inr (Reply ''Intent not implemented yet.'')"
    using assms by (auto simp: formatResponse_p1_def intentIs_def)
  have present: "monthlyTotals env dateKey statusKey ?rep ?yr filtered =
          Inr (Reply (monthlyReply env ?reps ?yrs m))
        \<and> formatResponse_intents env parsed question filtered =
            monthlyTotals env ''date'' ''Status_TransH'' ?rep ?yr filtered
        \<and> (incoming \<noteq> [] \<longrightarrow> formatResponse_p1 env incoming parsed question =
            monthlyTotals env ''date_created'' ''status'' ?rep ?yr incoming)
        \<and> m = foldl (\<lambda>acc so. addTo env acc (monthOf dateKey so) (so ''amount'')) []
                (filter (countsMonthly dateKey statusKey ?rep) filtered)
        \<and> (m = [] \<longrightarrow> monthlyReply env ?reps ?yrs m =
               ''No valid sales orders found for '' @ ?reps @ '' in '' @ ?yrs)
        \<and> (m \<noteq> [] \<longrightarrow> monthlyReply env ?reps ?yrs m =
               join newline (map (\<lambda>(month, amt). month @ '': '' @ formatPeso env (toNumber amt))
                 (monthlySorted env m)))
        \<and> ((\<forall>a \<in> fst ` set m. \<forall>b \<in> fst ` set m. (localeCompare env a b < 0) = (a < b)) \<longrightarrow>
             sorted (map fst (monthlySorted env m)) \<and> set (monthlySorted env m) = set m)"
    if both: "truthyJ (map_of parsed ''year'') \<and> truthyJ (map_of parsed ''salesRep'')
        \<and> monthlyMapOf env dateKey statusKey ?rep filtered = Inr m"
  proof -
    have 1: "monthlyTotals env dateKey statusKey ?rep ?yr filtered =
          Inr (Reply (monthlyReply env ?reps ?yrs m))"
      using both by (simp add: monthlyTotals_def bindE_def)
    have 2: "formatResponse_intents env parsed question filtered =
            monthlyTotals env ''date'' ''Status_TransH'' ?rep ?yr filtered"
      using both assms by (simp add: formatResponse_intents_def intentIs_def)
    have 3: "incoming \<noteq> [] \<longrightarrow> formatResponse_p1 env incoming parsed question =
            monthlyTotals env ''date_created'' ''status'' ?rep ?yr incoming"
      using both assms by (simp add: formatResponse_p1_def intentIs_def)
    have 4: "m = foldl (\<lambda>acc so. addTo env acc (monthOf dateKey so) (so ''amount'')) []
                (filter (countsMonthly dateKey statusKey ?rep) filtered)"
      using both by (intro foldE_monthlyStep) (simp add: monthlyMapOf_def)
    have 6: "m = [] \<longrightarrow> monthlyReply env ?reps ?yrs m =
               ''No valid sales orders found for '' @ ?reps @ '' in '' @ ?yrs"
      by (simp add: monthlyReply_empty)
    have 7: "m \<noteq> [] \<longrightarrow> monthlyReply env ?reps ?yrs m =
               join newline (map (\<lambda>(month, amt). month @ '': '' @ formatPeso env (toNumber amt))
                 (monthlySorted env m))"
      using monthly_text_nonempty[of m env] by (simp add: monthlyReply_lines)
    have 8: "(\<forall>a \<in> fst ` set m. \<forall>b \<in> fst ` set m. (localeCompare env a b < 0) = (a < b)) \<longrightarrow>
             sorted (map fst (monthlySorted env m)) \<and> set (monthlySorted env m) = set m"
      by (auto simp: monthlySorted_sorted set_entries)
    show ?thesis
      by (rule conjI[OF 1 conjI[OF 2 conjI[OF 3 conjI[OF 4 conjI[OF 6 conjI[OF 7 8]]]]]])
  qed
  show ?thesis
    using never never1 none none1 absent present by blast
qed

theorem monthlyTotals_routing_witness:
  "formatResponse_p1 envTable [exampleOrder1] (noConstraint ''monthlyTotals'') ''monthly'' =
     Inr (Reply ''Intent not implemented yet.'')
   \<and> monthlyMapOf envTable ''date'' ''Status_TransH'' (JStr ''ana'') [exampleOrder1, exampleOrder2] =
       Inr [(''2024-03'', Num (Fin 1500))]
   \<and> formatResponse envTable [exampleOrder1, exampleOrder2]
       (mapPut (mapPut (noConstraint ''monthlyTotals'') ''year'' (JStr ''2024''))
          ''salesRep'' (JStr ''ana''))
       ''monthly'' = Inr (Reply ''2024-03: 1500'')"
proof -
  have i: "intentIs (noConstraint ''monthlyTotals'') ''monthlyTotals''"
    by (simp add: noConstraint_def intentIs_def)
  have absent: "\<not> (truthyJ (map_of (noConstraint ''monthlyTotals'') ''year'')
      \<and> truthyJ (map_of (noConstraint ''monthlyTotals'') ''salesRep'')) \<and> [exampleOrder1] \<noteq> []"
    by (simp add: noConstraint_def)
  have fixed: "formatResponse_p1 envTable [exampleOrder1] (noConstraint ''monthlyTotals'')
      ''monthly'' = Inr (Reply ''Intent not implemented yet.'')"
    using monthlyTotals_routing[OF i] absent by blast
  have months: "monthlyMapOf envTable ''date'' ''Status_TransH'' (JStr ''ana'')
      [exampleOrder1, exampleOrder2] = Inr [(''2024-03'', Num (Fin 1500))]"
    by (simp add: monthlyMapOf_def monthlyStep_def validStatuses_def engine_defs group_defs)
  have run: "formatResponse envTable [exampleOrder1, exampleOrder2]
       (mapPut (mapPut (noConstraint ''monthlyTotals'') ''year'' (JStr ''2024''))
          ''salesRep'' (JStr ''ana''))
       ''monthly'' = Inr (Reply ''2024-03: 1500'')"
    by (simp add: monthlyTotals_def monthlyReply_def monthlySorted_def
        monthlyMapOf_def monthlyStep_def validStatuses_def engine_defs group_defs)
  show ?thesis
    by (rule conjI[OF fixed conjI[OF months run]])
qed

text \<open>
  The claim as stated fails: a \<^verbatim>\<open>monthlyTotals\<close> request without year and salesRep is
  not always routed to the free-text fallback.  Given no record, \<^verbatim>\<open>index.js\<close> returns its
  text for an empty set; and \<^verbatim>\<open>part_001\<close>, which has no fallback, returns a fixed text.
\<close>

theorem monthlyTotals_not_always_fallback:
  "formatResponse envTable [] (noConstraint ''monthlyTotals'') ''monthly totals'' =
     Inr (Reply ''There are 0 sales orders matching your query.'')
   \<and> formatResponse_p1 envTable [exampleOrder1] (noConstraint ''monthlyTotals'')
       ''monthly totals'' = Inr (Reply ''Intent not implemented yet.'')"
  by (simp add: formatResponse_def formatResponse_p1_def noConstraint_def intentIs_def)

end
